theory Spec2Isabelle
  imports Main "HOL-Library.Multiset"
begin

section \<open>JavaScript numbers used by the table controller\<close>

text \<open>
  Row counts, page numbers and page sizes are integers; the only non-integer number the
  pagination code produces on these is \<open>NaN\<close> (from \<open>"*" - 10\<close>, \<open>+"*"\<close>,
  \<open>undefined / 10\<close>). A number is therefore \<open>NaN\<close> or an integer. An infinite
  number is met once, as the page count of \<open>createPaginationItems\<close> over the page size \<open>0\<close>,
  where it is an error.
\<close>

datatype jsnum = NaN | Fin int

fun isNaN :: "jsnum \<Rightarrow> bool" where
  "isNaN NaN = True"
| "isNaN (Fin _) = False"

text \<open>\<open>Math.min\<close> and \<open>Math.max\<close> return \<open>NaN\<close> as soon as one argument is \<open>NaN\<close>.\<close>

fun Math_min :: "jsnum \<Rightarrow> jsnum \<Rightarrow> jsnum" where
  "Math_min (Fin a) (Fin b) = Fin (min a b)"
| "Math_min _ _ = NaN"

fun Math_max :: "jsnum \<Rightarrow> jsnum \<Rightarrow> jsnum" where
  "Math_max (Fin a) (Fin b) = Fin (max a b)"
| "Math_max _ _ = NaN"

fun js_minus :: "jsnum \<Rightarrow> jsnum \<Rightarrow> jsnum" where
  "js_minus (Fin a) (Fin b) = Fin (a - b)"
| "js_minus _ _ = NaN"

text \<open>\<open>toNumber(value, fallback)\<close>: \<open>!value || isNaN(+value) ? fallback : +value\<close>.
  On a number, \<open>!value\<close> holds for \<open>0\<close> and for \<open>NaN\<close>.\<close>

fun toNumber :: "jsnum \<Rightarrow> jsnum \<Rightarrow> jsnum" where
  "toNumber NaN fallback = fallback"
| "toNumber (Fin v) fallback = (if v = 0 then fallback else Fin v)"

section \<open>Page-size options: \<open>createPaginationCeiling\<close>\<close>

text \<open>
  The candidates are the entries of \<open>items\<close> and \<open>DEFAULT.ITEMS\<close>; \<open>toLimit\<close>
  validates each as a number or the string \<open>"*"\<close> (\<open>DEFAULT.LIMIT\<close>).
\<close>

datatype item = Star | N int

text \<open>Unary plus: \<open>+"*"\<close> is \<open>NaN\<close>.\<close>

fun item_num :: "item \<Rightarrow> jsnum" where
  "item_num Star = NaN"
| "item_num (N i) = Fin i"

text \<open>The comparator \<open>(a, b) => a - b\<close>.\<close>

definition minus_cmp :: "item \<Rightarrow> item \<Rightarrow> jsnum" where
  "minus_cmp a b = js_minus (item_num a) (item_num b)"

subsection \<open>\<open>Array.prototype.sort\<close>\<close>

text \<open>
  \<open>Array.prototype.sort\<close> reads a comparator result \<open>NaN\<close> as \<open>+0\<close>. For a comparator
  \<open>cmp\<close>, the language writes \<open>a <\<^sub>C\<^sub>F b\<close> when \<open>cmp(a, b) < 0\<close>, \<open>a =\<^sub>C\<^sub>F b\<close> when
  \<open>cmp(a, b) = 0\<close> and \<open>a >\<^sub>C\<^sub>F b\<close> when \<open>cmp(a, b) > 0\<close>.
\<close>

fun cmp_positive :: "jsnum \<Rightarrow> bool" where
  "cmp_positive NaN = False"
| "cmp_positive (Fin v) = (0 < v)"

fun cmp_negative :: "jsnum \<Rightarrow> bool" where
  "cmp_negative NaN = False"
| "cmp_negative (Fin v) = (v < 0)"

fun cmp_zero :: "jsnum \<Rightarrow> bool" where
  "cmp_zero NaN = True"
| "cmp_zero (Fin v) = (v = 0)"

text \<open>
  A comparator is a consistent comparator for a set of values when \<open>=\<^sub>C\<^sub>F\<close> is
  reflexive, symmetric and transitive on the set, and \<open><\<^sub>C\<^sub>F\<close> and \<open>>\<^sub>C\<^sub>F\<close> are
  transitive on it (ECMA-262, \<open>Array.prototype.sort\<close>).
\<close>

definition consistent_comparator :: "('a \<Rightarrow> 'a \<Rightarrow> jsnum) \<Rightarrow> 'a set \<Rightarrow> bool" where
  "consistent_comparator cmp S \<longleftrightarrow>
     (\<forall>a \<in> S. cmp_zero (cmp a a))
   \<and> (\<forall>a \<in> S. \<forall>b \<in> S. cmp_zero (cmp a b) \<longrightarrow> cmp_zero (cmp b a))
   \<and> (\<forall>a \<in> S. \<forall>b \<in> S. \<forall>c \<in> S.
        cmp_zero (cmp a b) \<and> cmp_zero (cmp b c) \<longrightarrow> cmp_zero (cmp a c))
   \<and> (\<forall>a \<in> S. \<forall>b \<in> S. \<forall>c \<in> S.
        cmp_negative (cmp a b) \<and> cmp_negative (cmp b c) \<longrightarrow> cmp_negative (cmp a c))
   \<and> (\<forall>a \<in> S. \<forall>b \<in> S. \<forall>c \<in> S.
        cmp_positive (cmp a b) \<and> cmp_positive (cmp b c) \<longrightarrow> cmp_positive (cmp a c))"

text \<open>
  For a consistent comparator the language fixes the result: the elements in ascending
  order of the comparator, elements that compare equal in their original order. This is
  the result of the stable insertion sort \<open>stable_sort\<close>, in which an element moves behind
  another one only when the comparator says it is greater (lemmas \<open>mset_stable_sort\<close>,
  \<open>sorted_stable_sort\<close> and \<open>stable_stable_sort\<close>).
\<close>

fun sort_insert :: "('a \<Rightarrow> 'a \<Rightarrow> jsnum) \<Rightarrow> 'a \<Rightarrow> 'a list \<Rightarrow> 'a list" where
  "sort_insert cmp x [] = [x]"
| "sort_insert cmp x (y # ys) =
     (if cmp_positive (cmp x y) then y # sort_insert cmp x ys else x # y # ys)"

definition stable_sort :: "('a \<Rightarrow> 'a \<Rightarrow> jsnum) \<Rightarrow> 'a list \<Rightarrow> 'a list" where
  "stable_sort cmp xs = foldr (sort_insert cmp) xs []"

text \<open>
  For a comparator that is not consistent on the elements, as \<open>(a, b) => a - b\<close> on a list
  that holds \<open>"*"\<close> between unequal numbers, the language leaves the order to the engine. The
  sort of the engine is therefore a parameter \<open>srt\<close> of every function that calls
  \<open>Array.prototype.sort\<close>; all that is known of it is \<open>conforming_sort\<close>: the result is a
  rearrangement of the elements, and it is the stable ascending order when the comparator is
  consistent on the elements.
\<close>

definition conforming_sort :: "(('a \<Rightarrow> 'a \<Rightarrow> jsnum) \<Rightarrow> 'a list \<Rightarrow> 'a list) \<Rightarrow> bool" where
  "conforming_sort srt \<longleftrightarrow>
     (\<forall>cmp xs. mset (srt cmp xs) = mset xs
        \<and> (consistent_comparator cmp (set xs) \<longrightarrow> srt cmp xs = stable_sort cmp xs))"

text \<open>\<open>item >= number\<close>: \<open>"*" >= number\<close> is false, its number being \<open>NaN\<close>.\<close>

fun item_ge :: "item \<Rightarrow> int \<Rightarrow> bool" where
  "item_ge Star number = False"
| "item_ge (N i) number = (number \<le> i)"

text \<open>\<open>Array.prototype.findIndex\<close>: the first index whose element satisfies the
  predicate, \<open>-1\<close> when there is none.\<close>

fun findIndex :: "('a \<Rightarrow> bool) \<Rightarrow> 'a list \<Rightarrow> int" where
  "findIndex p [] = -1"
| "findIndex p (x # xs) =
     (if p x then 0 else (let i = findIndex p xs in if i = -1 then -1 else i + 1))"

text \<open>\<open>xs.slice(0, e)\<close> for an end index \<open>e \<ge> 0\<close>.\<close>

definition slice0 :: "'a list \<Rightarrow> int \<Rightarrow> 'a list" where
  "slice0 xs e = take (nat e) xs"

text \<open>
  \<^verbatim>\<open>
  function createPaginationCeiling(n, array = []) {
      const number = isNaN(+n) ? null : +n;
      if (number === null) return array;
      const sortedArray = array.slice().sort((a, b) => a - b);
      const index = sortedArray.findIndex((item) => item >= number);
      return sortedArray.slice(0, index !== -1 ? index + 1 : array.length);
  }
  \<close>
  The argument \<open>n\<close> of the model is the number \<open>+n\<close>, and \<open>srt\<close> is the sort of the engine.
\<close>

definition createPaginationCeiling ::
  "((item \<Rightarrow> item \<Rightarrow> jsnum) \<Rightarrow> item list \<Rightarrow> item list) \<Rightarrow> jsnum \<Rightarrow> item list \<Rightarrow> item list" where
  "createPaginationCeiling srt n array =
     (case n of
        NaN \<Rightarrow> array
      | Fin number \<Rightarrow>
          (let sortedArray = srt minus_cmp array;
               index = findIndex (\<lambda>item. item_ge item number) sortedArray
           in slice0 sortedArray (if index \<noteq> -1 then index + 1 else int (length array))))"

section \<open>Clamping the page: \<open>toLimit\<close> and \<open>processPagination\<close>\<close>

text \<open>
  \<^verbatim>\<open>
  let pagingLength = Math.round(table.properties.total_rows / limitSize);
  let currentPage = Math.min(
      Math.max(1, table.properties.page),
      pagingLength
  );
  table.properties.limit = limitSize;
  table.properties.page =
      limitSize === DEFAULT.LIMIT
          ? DEFAULT.PAGE
          : isNaN(currentPage)
          ? table.properties.page
          : currentPage;
  \<close>
  The page count \<open>pagingLength\<close> is an input of the model: an integer, or \<open>NaN\<close> when
  \<open>total_rows\<close> is undefined or \<open>limitSize\<close> is not a number (an infinite page count, from the
  page size \<open>0\<close>, is left out: with a positive \<open>total_rows\<close>, \<open>createPaginationItems\<close>
  throws on this page size).
\<close>

definition DEFAULT_PAGE :: jsnum where
  "DEFAULT_PAGE = Fin 1"

definition toLimit_currentPage :: "jsnum \<Rightarrow> jsnum \<Rightarrow> jsnum" where
  "toLimit_currentPage page pagingLength = Math_min (Math_max (Fin 1) page) pagingLength"

text \<open>The value that this first assignment stores in \<open>table.properties.page\<close>;
  \<open>limitIsAll\<close> is \<open>limitSize === DEFAULT.LIMIT\<close>. It is not the page that \<open>toLimit\<close>
  leaves: \<open>applyLimitation\<close>, below, assigns the page again.\<close>

definition toLimit_first_page :: "bool \<Rightarrow> jsnum \<Rightarrow> jsnum \<Rightarrow> jsnum" where
  "toLimit_first_page limitIsAll page pagingLength =
     (let currentPage = toLimit_currentPage page pagingLength
      in if limitIsAll then DEFAULT_PAGE
         else if isNaN currentPage then page
         else currentPage)"

text \<open>
  \<^verbatim>\<open>
  function processPagination(data = {}, total_rows) {
      let { limit = DEFAULT.LIMIT, page = DEFAULT.PAGE } = data;
      page = toNumber(
          Math.min(Math.max(1, page), Math.round(total_rows / limit)),
          1
      );
      return { ...data, limit, page };
  }
  \<close>
  The page of the returned payload, with \<open>Math.round(total_rows / limit)\<close> as the input
  \<open>pageCount\<close>.
\<close>

definition processPagination_page :: "jsnum \<Rightarrow> jsnum \<Rightarrow> jsnum" where
  "processPagination_page page pageCount =
     toNumber (Math_min (Math_max (Fin 1) page) pageCount) (Fin 1)"

section \<open>Values and errors\<close>

text \<open>
  The values the controller stores and validates. An array, an object, a function and a
  DOM element carry an identity (their first argument): \<open>===\<close> compares identities, not
  contents. An object is given with its own enumerable properties in insertion order.
\<close>

datatype jsval =
    VUndefined
  | VNull
  | VBool bool
  | VNum jsnum
  | VStr string
  | VArr nat "jsval list"
  | VObj nat "(string \<times> jsval) list"
  | VFun nat
  | VElem nat

text \<open>
  A rule of \<open>validateVariable\<close> is given one value or an array of values
  (\<open>typeOf: "object"\<close>, \<open>typeOf: ["string", "number"]\<close>). The classes that the rules of
  the repository name are \<open>Element\<close>, \<open>Array\<close> and \<open>Object\<close>.
\<close>

datatype 'a spec = One 'a | Many "'a list"

datatype ctor = CElement | CArray | CObject

text \<open>
  The text of a \<open>TableJSError\<close> of \<open>validateVariable\<close>, kept as the data it is rendered
  from: the variable name, the value, and what was expected. A line of an \<open>$or\<close>/\<open>$and\<close>
  enumeration names one predicate; the pass/fail marker in front of it is the empty string
  in both cases (\<open>iconConstructor\<close> returns \<open>""\<close> either way), so a line carries none.
  The lines of a nested \<open>$and\<close> or \<open>$or\<close> show the value computed for it.
\<close>

datatype line =
    LTypeOf "string spec"
  | LInstanceOf "ctor spec"
  | LIn "jsval list"
  | LHas "string spec"
  | LEquals jsval
  | LStrictEquals jsval
  | LExecute
  | LPattern
  | LAnd bool
  | LOr bool
  | LInvalid

datatype expectation =
    AttainAny "line list"
  | AttainAll "line list"
  | MustBeTypeOf "string spec"
  | MustBeIn "jsval list"
  | MustHave "string spec"
  | MustBeInstanceOf "ctor spec"
  | MustExecute jsval bool
  | MustMatchPattern

text \<open>What is thrown: a \<open>TableJSError\<close>, an error of the language, or whatever a
  callback of the caller throws.\<close>

datatype error =
    TableJSError string jsval expectation
  | TypeError
  | SyntaxError
  | ReferenceError string
  | RangeError
  | Thrown

section \<open>\<open>toLimit\<close>, local target: the page it leaves\<close>

text \<open>
  The page size \<open>limitSize\<close> after the validation of \<open>toLimit\<close>: the string \<open>"*"\<close>
  (\<open>DEFAULT.LIMIT\<close>) or a number, \<open>Number(n)\<close>.
\<close>

datatype limit = LimitAll | LimitNumber jsnum

text \<open>\<open>number >= rowLength\<close>, false on \<open>NaN\<close>.\<close>

fun js_ge :: "jsnum \<Rightarrow> jsnum \<Rightarrow> bool" where
  "js_ge (Fin a) (Fin b) = (b \<le> a)"
| "js_ge _ _ = False"

text \<open>
  \<^verbatim>\<open>
  let limitCount = validateVariable(limitSize, {
      $transform: rowLength,
      $fallback: (n) => {
          let number = Number(n);
          return number >= rowLength ? rowLength : number;
      },
      $and: [{ typeOf: "string" }, { strictEquals: DEFAULT.LIMIT }],
  });
  let totalLength = table.properties.total_rows ?? rowLength;
  \<close>
  On \<open>"*"\<close> the rules hold and \<open>$transform\<close>, the number \<open>rowLength\<close>, is returned; on a
  number they fail and \<open>$fallback\<close> is called. \<open>rowLength\<close> is the number of rows of the
  body that are not \<open>NO_DATA\<close> rows; \<open>total_rows\<close> is \<open>None\<close> when the property is
  \<open>undefined\<close>.
\<close>

fun limitCount :: "limit \<Rightarrow> nat \<Rightarrow> jsnum" where
  "limitCount LimitAll rowLength = Fin (int rowLength)"
| "limitCount (LimitNumber number) rowLength =
     (if js_ge number (Fin (int rowLength)) then Fin (int rowLength) else number)"

definition totalLength :: "jsnum option \<Rightarrow> nat \<Rightarrow> jsnum" where
  "totalLength total_rows rowLength =
     (case total_rows of None \<Rightarrow> Fin (int rowLength) | Some t \<Rightarrow> t)"

text \<open>
  \<open>Array.from({ length: n }, f)\<close> for an integer \<open>n\<close>: a negative \<open>n\<close> is read as \<open>0\<close>,
  and a length above \<open>2\<^sup>3\<^sup>2 - 1\<close> is a \<open>RangeError\<close>. The elements are made in order, so that
  the first error of \<open>f\<close> is the error of the whole.
\<close>

fun collect :: "(error + 'a) list \<Rightarrow> error + 'a list" where
  "collect [] = Inr []"
| "collect (Inl e # xs) = Inl e"
| "collect (Inr x # xs) = (case collect xs of Inl e \<Rightarrow> Inl e | Inr ys \<Rightarrow> Inr (x # ys))"

definition Array_from :: "int \<Rightarrow> (int \<Rightarrow> error + 'a) \<Rightarrow> error + 'a list" where
  "Array_from n f =
     (if 4294967295 < n then Inl RangeError
      else collect (map (\<lambda>i. f (int i)) [0 ..< nat n]))"

text \<open>
  \<^verbatim>\<open>
  function createPaginationItems(rowLength, rowLimit) {
      const pageCount = Math.ceil(rowLength / rowLimit);
      return Array.from({ length: pageCount }, (_, pageIndex) => {
          const start = pageIndex * rowLimit;
          const end = Math.min(start + rowLimit, rowLength);
          return Array.from({ length: end - start }, (_, index) => start + index);
      });
  }
  \<close>
  \<open>Math.ceil(a / b)\<close> on integers with \<open>b \<noteq> 0\<close> is \<open>- ((- a) div b)\<close>. A \<open>NaN\<close> length,
  from a \<open>NaN\<close> argument or from \<open>0 / 0\<close>, is read as \<open>0\<close>, and so is \<open>-Infinity\<close>; the
  length \<open>Infinity\<close>, from a positive \<open>rowLength\<close> over the \<open>rowLimit\<close> \<open>0\<close>, is a
  \<open>RangeError\<close>.
\<close>

fun createPaginationItems :: "jsnum \<Rightarrow> jsnum \<Rightarrow> error + int list list" where
  "createPaginationItems (Fin rowLength) (Fin rowLimit) =
     (if rowLimit = 0 then (if 0 < rowLength then Inl RangeError else Inr [])
      else
        (let pageCount = - ((- rowLength) div rowLimit)
         in Array_from pageCount
              (\<lambda>pageIndex.
                 let start = pageIndex * rowLimit;
                     endIndex = min (start + rowLimit) rowLength
                 in Array_from (endIndex - start) (\<lambda>index. Inr (start + index)))))"
| "createPaginationItems _ _ = Inr []"

text \<open>
  The local branch of \<open>toLimit\<close>, as far as the page goes: the first assignment, then
  \<open>applyLimitation\<close>, which assigns the page again.
  \<^verbatim>\<open>
  let pagination = createPaginationItems(totalLength, limitCount);
  let paginationLength = toNumber(pagingLength, pagination.length);
  let currentPage = Math.min(
      Math.max(1, table.properties.page),
      paginationLength
  );
  table.properties.page = currentPage;
  \<close>
  The result is the value of \<open>table.properties.page\<close> when \<open>toLimit\<close> returns, or the error
  that \<open>createPaginationItems\<close> throws. The arguments are \<open>limitSize\<close>, validated, the
  properties \<open>total_rows\<close> and \<open>page\<close> of the table, the number \<open>rowLength\<close> of its rows, and
  \<open>pagingLength\<close> as above.
\<close>

definition toLimit_local ::
  "limit \<Rightarrow> jsnum option \<Rightarrow> nat \<Rightarrow> jsnum \<Rightarrow> jsnum \<Rightarrow> error + jsnum" where
  "toLimit_local limitSize total_rows rowLength page pagingLength =
     (let page1 = toLimit_first_page (limitSize = LimitAll) page pagingLength
      in case createPaginationItems (totalLength total_rows rowLength)
                (limitCount limitSize rowLength) of
           Inl e \<Rightarrow> Inl e
         | Inr pagination \<Rightarrow>
             (let paginationLength = toNumber pagingLength (Fin (int (length pagination)));
                  currentPage = Math_min (Math_max (Fin 1) page1) paginationLength
              in Inr currentPage))"

section \<open>The DOM of the table\<close>

text \<open>The class names of \<open>class.js\<close> and the messages of \<open>default.js\<close>.\<close>

definition CLASS_TD_BASE :: string where "CLASS_TD_BASE = ''tjs-data-cell''"
definition CLASS_TR_BASE :: string where "CLASS_TR_BASE = ''tjs-row-cell''"
definition CLASS_TR_HIDDEN :: string where "CLASS_TR_HIDDEN = ''tjs-row-hidden''"
definition CLASS_TR_VISIBLE :: string where "CLASS_TR_VISIBLE = ''tjs-row-visible''"
definition CLASS_TR_DUMMY :: string where "CLASS_TR_DUMMY = ''tjs-row-dummy''"
definition CLASS_TR_SEARCHED :: string where "CLASS_TR_SEARCHED = ''tjs-row-searched''"
definition CLASS_SORT_ASCENDING :: string where "CLASS_SORT_ASCENDING = ''tjs-sort-ascending''"
definition CLASS_SORT_DESCENDING :: string where "CLASS_SORT_DESCENDING = ''tjs-sort-descending''"
definition DEFAULT_NO_RESULT_MESSAGE :: string where
  "DEFAULT_NO_RESULT_MESSAGE = ''No matching records found''"

text \<open>\<open>classList.add\<close>, \<open>classList.remove\<close> and \<open>classList.contains\<close>.\<close>

definition classList_add :: "string \<Rightarrow> string list \<Rightarrow> string list" where
  "classList_add c cl = (if c \<in> set cl then cl else cl @ [c])"

definition classList_remove :: "string \<Rightarrow> string list \<Rightarrow> string list" where
  "classList_remove c cl = filter (\<lambda>x. x \<noteq> c) cl"

definition classList_contains :: "string list \<Rightarrow> string \<Rightarrow> bool" where
  "classList_contains cl c = (c \<in> set cl)"

text \<open>
  A cell: its \<open>textContent\<close>, its \<open>colSpan\<close>, and what \<open>validateVisibility\<close> returns on it
  (the computed style is the browser's). A row: its \<open>index\<close> (\<open>undefined\<close> reads as \<open>NaN\<close>
  in \<open>a.index - b.index\<close>), its class list and its cells; \<open>td.cellIndex\<close> is the position of
  a cell in its row. A header cell: its \<open>cellIndex\<close> and its class list. Whether a header
  cell matches a selector, \<open>th.matches(item)\<close>, is decided by the browser: it is the
  argument \<open>matches\<close> of the functions that read \<open>exclude\<close>.
\<close>

record td =
  td_textContent :: string
  td_colSpan :: nat
  td_visible :: bool

record tr =
  tr_index :: jsnum
  tr_classList :: "string list"
  tr_children :: "td list"

record th =
  th_cellIndex :: nat
  th_classList :: "string list"

text \<open>An entry of \<open>exclude\<close>: a selector or class name, or a column index.\<close>

datatype exclude_item = ExString string | ExNumber int

text \<open>
  \<^verbatim>\<open>
  let excludeIndex = cols.reduce((acc, th) => {
      if (exclude.some((item) => {
              switch (typeof item) {
                  case "string":
                      return th.matches(item) || Array.from(th.classList).includes(item);
                  case "number":
                      return item === th.cellIndex;
                  default:
                      return false;
              }
          })) {
          acc.push(th.cellIndex);
      }
      return acc;
  }, []);
  \<close>
\<close>

fun exclude_some :: "(th \<Rightarrow> string \<Rightarrow> bool) \<Rightarrow> th \<Rightarrow> exclude_item \<Rightarrow> bool" where
  "exclude_some matches h (ExString s) = (matches h s \<or> s \<in> set (th_classList h))"
| "exclude_some matches h (ExNumber n) = (n = int (th_cellIndex h))"

definition excludeIndex ::
  "(th \<Rightarrow> string \<Rightarrow> bool) \<Rightarrow> th list \<Rightarrow> exclude_item list \<Rightarrow> nat list" where
  "excludeIndex matches cols exclude =
     map th_cellIndex (filter (\<lambda>h. list_ex (exclude_some matches h) exclude) cols)"

text \<open>
  \<open>tds.filter((td) => !excludeIndex.includes(td.cellIndex) && validateVisibility(td))
  .map((td) => td.textContent)\<close>
\<close>

definition textContents :: "nat list \<Rightarrow> tr \<Rightarrow> string list" where
  "textContents exIdx row =
     map (\<lambda>(i, c). td_textContent c)
       (filter (\<lambda>(i, c). i \<notin> set exIdx \<and> td_visible c) (enumerate 0 (tr_children row)))"

text \<open>\<open>Array.prototype.join\<close> on strings.\<close>

fun join :: "string \<Rightarrow> string list \<Rightarrow> string" where
  "join sep [] = []"
| "join sep [x] = x"
| "join sep (x # y # ys) = x @ sep @ join sep (y # ys)"

section \<open>The regular expressions of search and filter\<close>

text \<open>
  \<open>keyword.replace(/[.*+?^${}()|[\]\\]/g, "\\$&")\<close> puts a backslash in front of every
  syntax character; \<open>new RegExp(source, "gi")\<close> then reads the source. The sources built
  this way hold literal characters and escaped syntax characters only, and the model of
  \<open>RegExp\<close> reads exactly those: any other source is outside it (\<open>None\<close>).
\<close>

definition backslash :: char where
  "backslash = CHR 0x5C"

definition syntax_characters :: "char list" where
  "syntax_characters = ''.*+?^${}()|[]'' @ [backslash]"

definition escapeRegExp :: "string \<Rightarrow> string" where
  "escapeRegExp keyword =
     concat (map (\<lambda>c. if c \<in> set syntax_characters then [backslash, c] else [c]) keyword)"

fun RegExp_source :: "string \<Rightarrow> string option" where
  "RegExp_source [] = Some []"
| "RegExp_source [c] = (if c \<in> set syntax_characters then None else Some [c])"
| "RegExp_source (c # d # cs) =
     (if c = backslash then
        (if d \<in> set syntax_characters then map_option ((#) d) (RegExp_source cs) else None)
      else if c \<in> set syntax_characters then None
      else map_option ((#) c) (RegExp_source (d # cs)))"

text \<open>
  The flag \<open>i\<close> compares characters after \<open>Canonicalize\<close>, which maps a character to its
  upper case. On the code units below 256 that \<open>char\<close> holds: \<open>a\<close>..\<open>z\<close> and the Latin-1
  lower-case letters \<open>0xE0\<close>..\<open>0xFE\<close> (without the division sign \<open>0xF7\<close>) go 32 down;
  every other unit is equivalent to itself only.
\<close>

definition canonicalize :: "char \<Rightarrow> char" where
  "canonicalize c =
     (let n = (of_char c :: nat)
      in if (97 \<le> n \<and> n \<le> 122) \<or> (224 \<le> n \<and> n \<le> 254 \<and> n \<noteq> 247)
         then char_of (n - 32) else c)"

text \<open>The literal pattern matches at the front of \<open>s\<close>.\<close>

definition matches_here :: "string \<Rightarrow> string \<Rightarrow> bool" where
  "matches_here pat s =
     (length pat \<le> length s \<and> map canonicalize (take (length pat) s) = map canonicalize pat)"

text \<open>The first position \<open>\<ge> pos\<close> at which the pattern matches, scanning the rest \<open>s\<close> of
  the string, which starts at position \<open>pos\<close>.\<close>

fun first_match :: "string \<Rightarrow> string \<Rightarrow> nat \<Rightarrow> nat option" where
  "first_match pat [] pos = (if matches_here pat [] then Some pos else None)"
| "first_match pat (c # cs) pos =
     (if matches_here pat (c # cs) then Some pos else first_match pat cs (Suc pos))"

text \<open>
  \<open>RegExp.prototype.test\<close> on a regular expression with the flag \<open>g\<close>: the search starts
  at \<open>lastIndex\<close>; a match sets \<open>lastIndex\<close> to its end, a failure resets it to \<open>0\<close>. The
  result is the verdict and the new \<open>lastIndex\<close>.
\<close>

definition RegExp_test :: "string \<Rightarrow> nat \<Rightarrow> string \<Rightarrow> bool \<times> nat" where
  "RegExp_test pat lastIndex s =
     (if length s < lastIndex then (False, 0)
      else (case first_match pat (drop lastIndex s) lastIndex of
              None \<Rightarrow> (False, 0)
            | Some i \<Rightarrow> (True, i + length pat)))"

section \<open>\<open>toSearch\<close>, local target: matching the rows\<close>

record paginationInfo =
  current_page :: jsnum
  total_page :: jsnum
  start_item :: jsnum
  end_item :: jsnum
  total_rows :: jsnum

text \<open>
  The placeholder row: \<open>dummy\<close> with the classes \<open>DUMMY\<close>, \<open>BASE\<close>, \<open>VISIBLE\<close> and one
  cell that spans \<open>cols.length\<close> columns and shows \<open>DEFAULT.NO_RESULT_MESSAGE\<close>. It is
  created without an \<open>index\<close>.
\<close>

definition dummy :: "nat \<Rightarrow> tr" where
  "dummy colsLength =
     \<lparr>tr_index = NaN,
      tr_classList = [CLASS_TR_DUMMY, CLASS_TR_BASE, CLASS_TR_VISIBLE],
      tr_children =
        [\<lparr>td_textContent = DEFAULT_NO_RESULT_MESSAGE, td_colSpan = colsLength,
          td_visible = True\<rparr>]\<rparr>"

definition isDummy :: "tr \<Rightarrow> bool" where
  "isDummy row = classList_contains (tr_classList row) CLASS_TR_DUMMY"

text \<open>
  One step of \<open>rows.reduce((searched, row) => ..., 0)\<close>. The regular expression
  \<open>searchPattern\<close> is one object for all rows, so its \<open>lastIndex\<close> goes from one row to
  the next: the accumulator of the model is \<open>searched\<close> together with \<open>lastIndex\<close>.
  \<^verbatim>\<open>
  let string = tds.filter(...).map((td) => td.textContent).join(" ");
  let isSearched = searchPattern.test(string);
  let isDummy = row.classList.contains(CLASS.TR.DUMMY);
  row.classList.add(CLASS.TR.BASE);
  if (isSearched || isDummy) {
      row.classList.add(CLASS.TR.VISIBLE);
      row.classList.add(CLASS.TR.SEARCHED);
      row.classList.remove(CLASS.TR.HIDDEN);
      if (isSearched) searched++;
  } else {
      row.classList.add(CLASS.TR.HIDDEN);
      row.classList.remove(CLASS.TR.VISIBLE);
  }
  return searched;
  \<close>
\<close>

definition search_string :: "nat list \<Rightarrow> tr \<Rightarrow> string" where
  "search_string exIdx row = join '' '' (textContents exIdx row)"

definition search_mark :: "bool \<Rightarrow> tr \<Rightarrow> tr" where
  "search_mark shown row =
     (let cl = classList_add CLASS_TR_BASE (tr_classList row)
      in if shown
         then row\<lparr>tr_classList :=
                classList_remove CLASS_TR_HIDDEN
                  (classList_add CLASS_TR_SEARCHED (classList_add CLASS_TR_VISIBLE cl))\<rparr>
         else row\<lparr>tr_classList :=
                classList_remove CLASS_TR_VISIBLE (classList_add CLASS_TR_HIDDEN cl)\<rparr>)"

definition search_step :: "nat list \<Rightarrow> string \<Rightarrow> nat \<times> nat \<Rightarrow> tr \<Rightarrow> tr \<times> (nat \<times> nat)" where
  "search_step exIdx pat acc row =
     (let searched = fst acc;
          lastIndex = snd acc;
          t = RegExp_test pat lastIndex (search_string exIdx row);
          isSearched = fst t
      in (search_mark (isSearched \<or> isDummy row) row,
          (if isSearched then Suc searched else searched, snd t)))"

fun search_rows :: "nat list \<Rightarrow> string \<Rightarrow> nat \<times> nat \<Rightarrow> tr list \<Rightarrow> tr list \<times> (nat \<times> nat)" where
  "search_rows exIdx pat acc [] = ([], acc)"
| "search_rows exIdx pat acc (row # rows) =
     (let s = search_step exIdx pat acc row;
          r = search_rows exIdx pat (snd s) rows
      in (fst s # fst r, snd r))"

text \<open>\<open>dum?.remove()\<close>: \<open>dum\<close> is the first placeholder row of the body.\<close>

fun remove_first :: "('a \<Rightarrow> bool) \<Rightarrow> 'a list \<Rightarrow> 'a list" where
  "remove_first p [] = []"
| "remove_first p (x # xs) = (if p x then xs else x # remove_first p xs)"

record search_outcome =
  out_tbody :: "tr list"
  out_result :: nat
  out_info :: paginationInfo

text \<open>
  The local branch of \<open>toSearch\<close> on the header cells \<open>cols\<close> and the rows of the body.
  \<^verbatim>\<open>
  let dum = tbody.querySelector(`.${CLASS.TR.DUMMY}`);
  if (result < 1) {
      if (!dum) { tbody.appendChild(dummy); }
  } else {
      dum?.remove();
  }
  let paginationInfo = {
      current_page: 1,
      total_page: 1,
      start_item: toNumber(Math.min(result, 1)),
      end_item: toNumber(dum ? Math.max(0, result - 1) : result),
      total_rows: toNumber(dum ? rowLength - 1 : rowLength),
  };
  \<close>
\<close>

definition toSearch_local ::
  "(th \<Rightarrow> string \<Rightarrow> bool) \<Rightarrow> th list \<Rightarrow> exclude_item list \<Rightarrow> string \<Rightarrow> tr list \<Rightarrow> error + search_outcome" where
  "toSearch_local matches cols exclude keyword rows =
     (case RegExp_source (escapeRegExp keyword) of
        None \<Rightarrow> Inl SyntaxError
      | Some searchPattern \<Rightarrow>
          (let rowLength = length rows;
               r = search_rows (excludeIndex matches cols exclude) searchPattern (0, 0) rows;
               result = fst (snd r);
               dum = find isDummy (fst r);
               tbody =
                 (if result < 1
                  then (if dum = None then fst r @ [dummy (length cols)] else fst r)
                  else remove_first isDummy (fst r));
               paginationInfo =
                 \<lparr>current_page = Fin 1,
                  total_page = Fin 1,
                  start_item = toNumber (Math_min (Fin (int result)) (Fin 1)) (Fin 0),
                  end_item =
                    toNumber
                      (if dum \<noteq> None then Math_max (Fin 0) (Fin (int result - 1))
                       else Fin (int result))
                      (Fin 0),
                  total_rows =
                    toNumber
                      (if dum \<noteq> None then Fin (int rowLength - 1) else Fin (int rowLength))
                      (Fin 0)\<rparr>
           in Inr \<lparr>out_tbody = tbody, out_result = result, out_info = paginationInfo\<rparr>))"

section \<open>\<open>toFilter\<close>, local target: matching the rows\<close>

text \<open>
  \<^verbatim>\<open>
  let searchKeyword = Object.values(filters)
      .filter(Boolean)
      .map((filter) => filter.replace(/[.*+?^${}()|[\]\\]/g, "\\$&"));
  let searchPatterns = searchKeyword.map((keyword) => new RegExp(keyword, "gi"));
  \<close>
  The filters are the entries of the object, field name and value, in insertion order;
  the values are strings (the values of the filter inputs), of which \<open>Boolean\<close> keeps the
  non-empty ones. The result is \<open>None\<close> when \<open>RegExp\<close> throws.
\<close>

fun those_patterns :: "string list \<Rightarrow> string list option" where
  "those_patterns [] = Some []"
| "those_patterns (k # ks) =
     (case RegExp_source k of
        None \<Rightarrow> None
      | Some p \<Rightarrow> map_option ((#) p) (those_patterns ks))"

definition searchKeyword :: "(string \<times> string) list \<Rightarrow> string list" where
  "searchKeyword filters = map escapeRegExp (filter (\<lambda>v. v \<noteq> []) (map snd filters))"

definition searchPatterns :: "(string \<times> string) list \<Rightarrow> string list option" where
  "searchPatterns filters = those_patterns (searchKeyword filters)"

text \<open>
  \<^verbatim>\<open>
  let isSearched = searchPatterns.every((pattern) =>
      textContents.some((text) => {
          const refresh = new RegExp(pattern);
          return refresh.test(text);
      })
  );
  \<close>
  \<open>new RegExp(pattern)\<close> is a fresh regular expression: its \<open>lastIndex\<close> is \<open>0\<close>.
\<close>

definition filter_isSearched :: "string list \<Rightarrow> nat list \<Rightarrow> tr \<Rightarrow> bool" where
  "filter_isSearched pats exIdx row =
     list_all (\<lambda>pattern. list_ex (\<lambda>text. fst (RegExp_test pattern 0 text)) (textContents exIdx row))
       pats"

text \<open>
  One step of the \<open>reduce\<close> of \<open>toFilter\<close>, and the loop.
  \<^verbatim>\<open>
  if (isSearched || isDummy) {
      row.classList.add(CLASS.TR.VISIBLE);
      row.classList.remove(CLASS.TR.HIDDEN);
      if (isSearched) searched++;
  } else {
      row.classList.add(CLASS.TR.HIDDEN);
      row.classList.remove(CLASS.TR.VISIBLE);
  }
  \<close>
\<close>

definition filter_mark :: "bool \<Rightarrow> tr \<Rightarrow> tr" where
  "filter_mark shown row =
     (let cl = classList_add CLASS_TR_BASE (tr_classList row)
      in if shown
         then row\<lparr>tr_classList := classList_remove CLASS_TR_HIDDEN (classList_add CLASS_TR_VISIBLE cl)\<rparr>
         else row\<lparr>tr_classList := classList_remove CLASS_TR_VISIBLE (classList_add CLASS_TR_HIDDEN cl)\<rparr>)"

fun filter_rows :: "string list \<Rightarrow> nat list \<Rightarrow> nat \<Rightarrow> tr list \<Rightarrow> tr list \<times> nat" where
  "filter_rows pats exIdx searched [] = ([], searched)"
| "filter_rows pats exIdx searched (row # rows) =
     (let isSearched = filter_isSearched pats exIdx row;
          r = filter_rows pats exIdx (if isSearched then Suc searched else searched) rows
      in (filter_mark (isSearched \<or> isDummy row) row # fst r, snd r))"

text \<open>The loop of \<open>toFilter\<close> on the rows of the body, from the filters as given: the rows
  with their marks, and \<open>result\<close>, the number of rows that pass.\<close>

definition toFilter_rows ::
  "(th \<Rightarrow> string \<Rightarrow> bool) \<Rightarrow> th list \<Rightarrow> exclude_item list \<Rightarrow> (string \<times> string) list \<Rightarrow> tr list \<Rightarrow> error + tr list \<times> nat" where
  "toFilter_rows matches cols exclude filters rows =
     (case searchPatterns filters of
        None \<Rightarrow> Inl SyntaxError
      | Some pats \<Rightarrow> Inr (filter_rows pats (excludeIndex matches cols exclude) 0 rows))"

text \<open>
  The property that search and filter are meant to decide, in its own words: the keyword
  \<open>v\<close> occurs in the text \<open>t\<close>, letter case set aside.
\<close>

definition occurs_ci :: "string \<Rightarrow> string \<Rightarrow> bool" where
  "occurs_ci v t = (\<exists>pre post. map canonicalize t = pre @ map canonicalize v @ post)"

text \<open>
  The property that the filter is meant to decide, in its own words: for every entry of the
  mapping whose value is not the empty string, some cell of the row that is neither in an
  excluded column nor hidden holds the value, letter case set aside.
\<close>

definition passes_filter :: "nat list \<Rightarrow> (string \<times> string) list \<Rightarrow> tr \<Rightarrow> bool" where
  "passes_filter exIdx filters row \<longleftrightarrow>
     (\<forall>(field, v) \<in> set filters. v \<noteq> [] \<longrightarrow>
        (\<exists>i < length (tr_children row).
           i \<notin> set exIdx \<and> td_visible (tr_children row ! i)
           \<and> occurs_ci v (td_textContent (tr_children row ! i))))"

section \<open>The table properties: the \<open>Proxy\<close> of \<open>tablejs.js\<close> and \<open>propertiesListener\<close>\<close>

text \<open>Strict equality \<open>===\<close>: \<open>NaN\<close> differs from itself; arrays, objects, functions and
  elements are equal when they are the same one.\<close>

fun strict_equals :: "jsval \<Rightarrow> jsval \<Rightarrow> bool" where
  "strict_equals VUndefined VUndefined = True"
| "strict_equals VNull VNull = True"
| "strict_equals (VBool a) (VBool b) = (a = b)"
| "strict_equals (VNum (Fin a)) (VNum (Fin b)) = (a = b)"
| "strict_equals (VStr a) (VStr b) = (a = b)"
| "strict_equals (VArr i _) (VArr j _) = (i = j)"
| "strict_equals (VObj i _) (VObj j _) = (i = j)"
| "strict_equals (VFun i) (VFun j) = (i = j)"
| "strict_equals (VElem i) (VElem j) = (i = j)"
| "strict_equals _ _ = False"

text \<open>
  Shallow equality in the usual sense, written from its name and not from the code (the
  code has no such function): two values are shallow-equal when they are strictly equal,
  or are two arrays, or two objects with the same keys, whose members are strictly equal
  one by one.
\<close>

fun shallow_equal_spec :: "jsval \<Rightarrow> jsval \<Rightarrow> bool" where
  "shallow_equal_spec (VArr i xs) (VArr j ys) =
     (i = j \<or> (length xs = length ys \<and> list_all (\<lambda>(x, y). strict_equals x y) (zip xs ys)))"
| "shallow_equal_spec (VObj i ps) (VObj j qs) =
     (i = j \<or> (map fst ps = map fst qs
              \<and> list_all (\<lambda>(x, y). strict_equals x y) (zip (map snd ps) (map snd qs))))"
| "shallow_equal_spec a b = strict_equals a b"

text \<open>
  \<open>elements.paginate\<close>: for each target (\<open>"local"\<close>, \<open>"api"\<close>) and each role (\<open>"limit"\<close>,
  \<open>"search"\<close>, \<open>"filter"\<close>, ...) the collection of the control elements, of which the
  listener writes the \<open>value\<close>; an element is given by its \<open>value\<close>. The keys of an object
  are distinct.
\<close>

type_synonym paginate = "(string \<times> (string \<times> string list) list) list"

definition DEFAULT_SEARCH :: string where
  "DEFAULT_SEARCH = []"

definition DEFAULT_LIMIT :: string where
  "DEFAULT_LIMIT = ''*''"

text \<open>
  \<^verbatim>\<open>
  const { limit, search, filter } = Object.entries(elements.paginate).reduce(
      (acc, [, values]) => {
          for (const key in values) {
              if (values.hasOwnProperty(key)) {
                  if (!acc[key]) { acc[key] = []; }
                  acc[key].push(values[key]);
              }
          }
          return acc;
      }, {});
  \<close>
  \<open>collected key p\<close> is \<open>acc[key]\<close>: the collections under \<open>key\<close> of all targets, and
  \<open>None\<close> (\<open>undefined\<close>) when no target has the key.
\<close>

definition collected :: "string \<Rightarrow> paginate \<Rightarrow> string list list option" where
  "collected key p =
     (let cs = concat (map (\<lambda>(to, values). map snd (filter (\<lambda>(k, els). k = key) values)) p)
      in if cs = [] then None else Some cs)"

text \<open>\<open>collection.forEach((el) => { el.value = DEFAULT.SEARCH; })\<close> on every collection
  under \<open>key\<close>.\<close>

definition reset_values :: "string \<Rightarrow> paginate \<Rightarrow> paginate" where
  "reset_values key p =
     map (\<lambda>(to, values).
            (to, map (\<lambda>(k, els). if k = key then (k, map (\<lambda>el. DEFAULT_SEARCH) els) else (k, els))
                   values))
       p"

text \<open>
  \<^verbatim>\<open>
  switch (property) {
      case "limit":
      case "page":
          search.forEach((collection) => { collection.forEach((el) => { el.value = DEFAULT.SEARCH; }); });
          filter.forEach((collection) => { collection.forEach((el) => { el.value = DEFAULT.SEARCH; }); });
          break;
      case "sort": break;
      case "filter": break;
      case "search": break;
  }
  \<close>
  \<open>Object.entries(undefined)\<close> and \<open>undefined.forEach\<close> throw a \<open>TypeError\<close>. The result
  is \<open>elements.paginate\<close> after the call, and the error thrown, if any. The debug output
  to the console is not part of the model.
\<close>

definition propertiesListener :: "paginate option \<Rightarrow> string \<Rightarrow> paginate option \<times> error option" where
  "propertiesListener elements_paginate property =
     (case elements_paginate of
        None \<Rightarrow> (None, Some TypeError)
      | Some p \<Rightarrow>
          if property = ''limit'' \<or> property = ''page'' then
            (case collected ''search'' p of
               None \<Rightarrow> (Some p, Some TypeError)
             | Some _ \<Rightarrow>
                 (let p1 = reset_values ''search'' p
                  in case collected ''filter'' p of
                       None \<Rightarrow> (Some p1, Some TypeError)
                     | Some _ \<Rightarrow> (Some (reset_values ''filter'' p1), None)))
          else (Some p, None))"

text \<open>
  The state behind \<open>table.properties\<close>: the properties of the target (a property that
  was never written reads \<open>undefined\<close>), \<open>elements.paginate\<close>, and the calls of
  \<open>propertiesListener\<close> made so far, each with its \<open>property\<close> and \<open>value\<close>.
\<close>

record store =
  target :: "string \<Rightarrow> jsval"
  paginate :: "paginate option"
  listened :: "(string \<times> jsval) list"

text \<open>
  \<^verbatim>\<open>
  table.properties = new Proxy(table, {
      set: (target, property, value) => {
          const previousValue = target[property];
          if (previousValue !== value) {
              target[property] = value;
              UTILITIES.propertiesListener({ elements: this.elements, property, value });
          }
          return true;
      },
  });
  \<close>
  The result is the state after the assignment and the error thrown by the listener, if
  any.
\<close>

definition properties_set ::
  "'a store_scheme \<Rightarrow> string \<Rightarrow> jsval \<Rightarrow> 'a store_scheme \<times> error option" where
  "properties_set st property v =
     (let previousValue = target st property
      in if \<not> strict_equals previousValue v then
           (let st1 = st\<lparr>target := (target st)(property := v)\<rparr>;
                st2 = st1\<lparr>listened := listened st1 @ [(property, v)]\<rparr>;
                r = propertiesListener (paginate st2) property
            in (st2\<lparr>paginate := fst r\<rparr>, snd r))
         else (st, None))"

section \<open>\<open>toSearch\<close>, \<open>toInitialize\<close> and the requests in flight\<close>

text \<open>
  \<open>instance.api\<close>: the \<open>url\<close>, whether \<open>init\<close> is set, and the payload \<open>data\<close> (an object,
  or \<open>undefined\<close>). The instances of the model have no \<open>api.rendering\<close>: a response is
  rendered by \<open>toRender\<close>.
\<close>

record api =
  api_url :: string
  api_init :: bool
  api_data :: "(string \<times> jsval) list option"

text \<open>A request in flight: what \<open>HttpRequest\<close> was constructed with. Neither the
  configuration nor the request carries a sequence number.\<close>

record request =
  req_url :: string
  req_data :: "(string \<times> jsval) list option"

record tinstance = store +
  thead :: "th list"
  tbody :: "tr list"
  instance_api :: "api option"
  pending :: "request list"

text \<open>\<open>object[key] = v\<close> and \<open>delete object[key]\<close> on the own properties of an object.\<close>

definition object_put :: "string \<Rightarrow> 'v \<Rightarrow> (string \<times> 'v) list \<Rightarrow> (string \<times> 'v) list" where
  "object_put key v ps =
     (if key \<in> set (map fst ps) then map (\<lambda>(k, w). if k = key then (k, v) else (k, w)) ps
      else ps @ [(key, v)])"

definition object_delete :: "string \<Rightarrow> (string \<times> 'v) list \<Rightarrow> (string \<times> 'v) list" where
  "object_delete key ps = filter (\<lambda>(k, w). k \<noteq> key) ps"

text \<open>
  How a call ends: it returns, it throws, or it goes on into the local initialisation of
  \<open>toInitialize\<close> (\<open>preInitialize\<close>, the rendering of the local dataset,
  \<open>postInitialize\<close>), which the model does not follow.
\<close>

datatype 's outcome = Returned 's | Threw error 's | LocalInitialize 's

text \<open>
  \<^verbatim>\<open>
  table.properties.search = keyword;
  table.properties.limit = DEFAULT.LIMIT;
  table.properties.page = DEFAULT.PAGE;
  \<close>
  An assignment that throws ends the sequence.
\<close>

definition toSearch_properties ::
  "'a store_scheme \<Rightarrow> string \<Rightarrow> 'a store_scheme \<times> error option" where
  "toSearch_properties st keyword =
     (let r1 = properties_set st ''search'' (VStr keyword)
      in if snd r1 \<noteq> None then r1
         else (let r2 = properties_set (fst r1) ''limit'' (VStr DEFAULT_LIMIT)
               in if snd r2 \<noteq> None then r2
                  else properties_set (fst r2) ''page'' (VNum DEFAULT_PAGE)))"

text \<open>
  \<open>toInitialize(instance, render)\<close> as \<open>toSearch\<close> calls it, with \<open>render\<close> the
  \<open>api.rendering\<close> that the instances of the model do not have:
  \<^verbatim>\<open>
  if ((api && !!api.url && !api.init) || (api && !!api.url && (!!render || !api.init))) {
      const ajax = new HttpRequest({ ...api, beforeSend: ..., afterSend: ..., success: ..., error: ... });
      ajax.request();
  } else if (dataset) { ... } else { preInitialize(instance); postInitialize(instance); }
  \<close>
  \<open>request()\<close> hands the request to \<open>fetch\<close> and returns; the response comes later. The
  event wiring of \<open>beforeSend\<close> is not part of the model, nor are the headers, the
  timeout and the substitution of \<open>:field\<close> placeholders in the URL.
\<close>

definition toInitialize :: "tinstance \<Rightarrow> tinstance outcome" where
  "toInitialize inst =
     (case instance_api inst of
        None \<Rightarrow> LocalInitialize inst
      | Some a \<Rightarrow>
          if api_url a \<noteq> [] \<and> \<not> api_init a
          then Returned (inst\<lparr>pending := pending inst @ [\<lparr>req_url = api_url a, req_data = api_data a\<rparr>]\<rparr>)
          else LocalInitialize inst)"

text \<open>
  The branch \<open>case "api"\<close> of \<open>toSearch\<close>:
  \<^verbatim>\<open>
  if (instance) {
      if (instance.api) {
          if (!instance.api.data) { instance.api.data = {}; }
          instance.api.data.search = keyword;
          delete instance.api.data.limit;
          delete instance.api.data.page;
          if (keyword === "") { delete instance.api.data.search; }
      }
      toInitialize(instance, instance?.api?.rendering);
  }
  \<close>
\<close>

definition toSearch_api_data :: "string \<Rightarrow> (string \<times> jsval) list option \<Rightarrow> (string \<times> jsval) list" where
  "toSearch_api_data keyword d =
     (let d0 = (case d of None \<Rightarrow> [] | Some ps \<Rightarrow> ps);
          d1 = object_put ''search'' (VStr keyword) d0;
          d2 = object_delete ''page'' (object_delete ''limit'' d1)
      in if keyword = [] then object_delete ''search'' d2 else d2)"

definition toSearch_api :: "string \<Rightarrow> tinstance \<Rightarrow> tinstance outcome" where
  "toSearch_api keyword inst =
     toInitialize
       (case instance_api inst of
          None \<Rightarrow> inst
        | Some a \<Rightarrow>
            inst\<lparr>instance_api := Some (a\<lparr>api_data := Some (toSearch_api_data keyword (api_data a))\<rparr>)\<rparr>)"

text \<open>
  \<open>toSearch\<close> on an instance: the arguments are of their validated types, \<open>to\<close> is any
  string (it is not validated), and the \<open>output\<close> callback is not part of the model.
\<close>

definition toSearch ::
  "(th \<Rightarrow> string \<Rightarrow> bool) \<Rightarrow> string \<Rightarrow> exclude_item list \<Rightarrow> string \<Rightarrow> tinstance \<Rightarrow> tinstance outcome"
  where
  "toSearch matches to exclude keyword inst =
     (let r = toSearch_properties inst keyword
      in case snd r of
           Some e \<Rightarrow> Threw e (fst r)
         | None \<Rightarrow>
             if to = ''local'' then
               (case toSearch_local matches (thead (fst r)) exclude keyword (tbody (fst r)) of
                  Inl e \<Rightarrow> Threw e (fst r)
                | Inr out \<Rightarrow> Returned ((fst r)\<lparr>tbody := out_tbody out\<rparr>))
             else if to = ''api'' then toSearch_api keyword (fst r)
             else Returned (fst r))"

text \<open>The state a call ends in.\<close>

fun outcome_state :: "'s outcome \<Rightarrow> 's" where
  "outcome_state (Returned s) = s"
| "outcome_state (Threw e s) = s"
| "outcome_state (LocalInitialize s) = s"


section \<open>Responses: \<open>HttpRequest.request\<close>, the \<open>success\<close> callback and \<open>toRender\<close>\<close>

definition CLASS_TH_BASE :: string where "CLASS_TH_BASE = ''tjs-header-cell''"
definition CLASS_TH_VISIBLE :: string where "CLASS_TH_VISIBLE = ''tjs-header-visible''"

text \<open>
  The responses of the model are JSON arrays of flat records whose values are strings.
  \<open>toRender\<close> on such an array: nothing happens on the empty array; otherwise the table
  is emptied, the header cells are made from the keys of the first record, and the body
  gets one row per record, with the position of the record as its \<open>index\<close> and one cell
  per key (\<open>item[key] !== undefined ? item[key] : ""\<close>).
  \<^verbatim>\<open>
  if (data && (data.length < 1 || Object.keys(data).length < 1)) { return; }
  table.innerHTML = "";
  ...
  let keys = Object.keys(data[0]);
  keys.forEach((key) => { let headerCell = document.createElement("th"); ... });
  data.forEach((item, index) => {
      let row = document.createElement("tr");
      if (row.index === undefined || row.index === null) { row.dataset.index = index; row.index = index; }
      keys.forEach((key) => {
          let cell = document.createElement("td");
          cell.classList.add(CLASS.TD.BASE, CLASS.TD.VISIBLE);
          cell.textContent = item[key] !== undefined ? item[key] : "";
          row.appendChild(cell);
      });
      tbodyFragment.appendChild(row);
  });
  \<close>
  The new cells are taken as visible.
\<close>

type_synonym record_object = "(string \<times> string) list"

definition render_cell :: "record_object \<Rightarrow> string \<Rightarrow> td" where
  "render_cell item key =
     \<lparr>td_textContent = (case map_of item key of None \<Rightarrow> [] | Some v \<Rightarrow> v),
      td_colSpan = 1, td_visible = True\<rparr>"

definition render_row :: "string list \<Rightarrow> nat \<times> record_object \<Rightarrow> tr" where
  "render_row keys p =
     \<lparr>tr_index = Fin (int (fst p)), tr_classList = [],
      tr_children = map (render_cell (snd p)) keys\<rparr>"

definition render_rows :: "record_object list \<Rightarrow> tr list" where
  "render_rows data = map (render_row (map fst (hd data))) (enumerate 0 data)"

definition render_header :: "record_object list \<Rightarrow> th list" where
  "render_header data =
     map (\<lambda>p. \<lparr>th_cellIndex = fst p, th_classList = [CLASS_TH_BASE, CLASS_TH_VISIBLE]\<rparr>)
       (enumerate 0 (map fst (hd data)))"

definition toRender :: "record_object list \<Rightarrow> tinstance \<Rightarrow> tinstance" where
  "toRender data inst =
     (if length data < 1 then inst
      else inst\<lparr>thead := render_header data, tbody := render_rows data\<rparr>)"

text \<open>
  \<open>request()\<close> returns a promise; when \<open>fetch\<close> of a request in flight resolves, its
  \<open>then\<close> handlers run:
  \<^verbatim>\<open>
  fetch(url, requestOptions)
      .then((response) => { clearTimeout(this.timeoutId); ... return response.json(); })
      .then(async (data) => {
          ...
          if (typeof success === 'function') { await success(data); }
          resolve(data);
      })
      .catch((err) => { if (typeof error === 'function') { error(err); } reject(err); })
  \<close>
  and \<open>success\<close>, as \<open>toInitialize\<close> sets it for an \<open>api\<close> without \<open>rendering\<close>, is
  \<open>toRender({ data, table: elements.table, instance })\<close>. Nothing in the handlers reads
  which request the response belongs to. \<open>fetch_resolved k data\<close> is the arrival of the
  response \<open>data\<close> to the request at position \<open>k\<close> of the requests in flight;
  \<open>fetch_rejected k\<close> is its failure (network error or timeout), after which the table
  is as before. The re-wiring of \<open>afterSend\<close> (\<open>postInitialize\<close>) is not part of the
  model.
\<close>

definition remove_nth :: "nat \<Rightarrow> 'a list \<Rightarrow> 'a list" where
  "remove_nth k xs = take k xs @ drop (Suc k) xs"

definition fetch_resolved :: "nat \<Rightarrow> record_object list \<Rightarrow> tinstance \<Rightarrow> tinstance" where
  "fetch_resolved k data inst =
     (if k < length (pending inst)
      then toRender data (inst\<lparr>pending := remove_nth k (pending inst)\<rparr>)
      else inst)"

definition fetch_rejected :: "nat \<Rightarrow> tinstance \<Rightarrow> tinstance" where
  "fetch_rejected k inst =
     (if k < length (pending inst) then inst\<lparr>pending := remove_nth k (pending inst)\<rparr> else inst)"

text \<open>
  The single thread of the page runs one handler after the other: a remote search that
  the user starts, or the arrival of a response.
\<close>

datatype event =
    Search string
  | Resolved nat "record_object list"
  | Rejected nat

fun handle :: "(th \<Rightarrow> string \<Rightarrow> bool) \<Rightarrow> event \<Rightarrow> tinstance \<Rightarrow> tinstance" where
  "handle matches (Search keyword) inst = outcome_state (toSearch matches ''api'' [] keyword inst)"
| "handle matches (Resolved k data) inst = fetch_resolved k data inst"
| "handle matches (Rejected k) inst = fetch_rejected k inst"

fun run :: "(th \<Rightarrow> string \<Rightarrow> bool) \<Rightarrow> event list \<Rightarrow> tinstance \<Rightarrow> tinstance" where
  "run matches [] inst = inst"
| "run matches (e # es) inst = run matches es (handle matches e inst)"

section \<open>\<open>toSort\<close>: the click on a header cell\<close>

text \<open>
  \<open>toSort\<close> adds a click listener to every header cell that is not excluded. The listeners
  of one call of \<open>toSort\<close> close over the same variables: \<open>ascending\<close>, the header cells
  \<open>ths\<close>, the body \<open>tbody\<close>, and the array \<open>rows\<close> of the rows that the call found, which
  \<open>rows.sort(...)\<close> sorts in place. A row is an object: the array holds the rows that are
  the children of the body, not copies of them. In the model the rows of the table are the
  list \<open>st_rows\<close>, a row is named by its position in this list, the children of the body
  are the list \<open>st_tbody\<close> of these names, and a call of \<open>toSort\<close> leaves a record
  \<open>sort_listener\<close>: its \<open>ascending\<close>, its array \<open>rows\<close>, and the positions in \<open>ths\<close> of
  the header cells that got its listener. The table has a header of one row, which holds
  the header cells \<open>st_ths\<close>, and a body.
\<close>

record sort_listener =
  sl_ascending :: bool
  sl_rows :: "nat list"
  sl_ths :: "nat list"

record sort_table =
  st_ths :: "th list"
  st_rows :: "tr list"
  st_tbody :: "nat list"
  st_listeners :: "sort_listener list"

definition CLASS_TR_NO_DATA :: string where "CLASS_TR_NO_DATA = ''tjs-row-no-data''"
definition CLASS_SORT_DISABLED :: string where "CLASS_SORT_DISABLED = ''tjs-sort-disabled''"
definition CLASS_SORT_ENABLED :: string where "CLASS_SORT_ENABLED = ''tjs-sort-enabled''"

text \<open>\<open>String.prototype.trim\<close> on the code units that \<open>char\<close> holds: tab, line feed,
  vertical tab, form feed, carriage return, space and no-break space are white space.\<close>

definition is_space :: "char \<Rightarrow> bool" where
  "is_space c = ((of_char c :: nat) \<in> {9, 10, 11, 12, 13, 32, 160})"

definition trim :: "string \<Rightarrow> string" where
  "trim s = rev (dropWhile is_space (rev (dropWhile is_space s)))"

text \<open>\<open>a.children[columnIndex]?.textContent.trim()\<close>: \<open>undefined\<close> (\<open>None\<close>) when the row
  has no such cell.\<close>

definition cell_value :: "tr \<Rightarrow> nat \<Rightarrow> string option" where
  "cell_value row columnIndex =
     (if columnIndex < length (tr_children row)
      then Some (trim (td_textContent (tr_children row ! columnIndex)))
      else None)"

fun js_negate :: "jsnum \<Rightarrow> jsnum" where
  "js_negate NaN = NaN"
| "js_negate (Fin v) = Fin (- v)"

text \<open>
  \<^verbatim>\<open>
  (a, b) => {
      let aValue = a.children[columnIndex]?.textContent.trim();
      let bValue = b.children[columnIndex]?.textContent.trim();
      let comparison = aValue?.localeCompare(bValue, undefined, { numeric: true, sensitivity: "base" });
      return currentSort ? comparison : -comparison;
  }
  \<close>
  The collation \<open>localeCompare\<close> with these options is the browser's: it is an argument
  of the model. An \<open>undefined\<close> \<open>aValue\<close> gives \<open>undefined\<close> or \<open>NaN\<close>, which \<open>sort\<close>
  reads as \<open>0\<close>; an \<open>undefined\<close> \<open>bValue\<close> is compared as the string \<open>"undefined"\<close>.
\<close>

definition column_cmp ::
  "(string \<Rightarrow> string \<Rightarrow> jsnum) \<Rightarrow> bool \<Rightarrow> nat \<Rightarrow> tr \<Rightarrow> tr \<Rightarrow> jsnum" where
  "column_cmp localeCompare currentSort columnIndex a b =
     (case cell_value a columnIndex of
        None \<Rightarrow> NaN
      | Some aValue \<Rightarrow>
          (let bValue = (case cell_value b columnIndex of None \<Rightarrow> ''undefined'' | Some v \<Rightarrow> v);
               comparison = localeCompare aValue bValue
           in if currentSort then comparison else js_negate comparison))"

text \<open>The comparator \<open>(a, b) => a.index - b.index\<close>.\<close>

definition index_cmp :: "tr \<Rightarrow> tr \<Rightarrow> jsnum" where
  "index_cmp a b = js_minus (tr_index a) (tr_index b)"

definition th_remove :: "string \<Rightarrow> th \<Rightarrow> th" where
  "th_remove c h = h\<lparr>th_classList := classList_remove c (th_classList h)\<rparr>"

definition th_add :: "string \<Rightarrow> th \<Rightarrow> th" where
  "th_add c h = h\<lparr>th_classList := classList_add c (th_classList h)\<rparr>"

text \<open>
  The local branch of \<open>toSort\<close>, for arguments that pass its validations.
  \<^verbatim>\<open>
  if (sorting === false) { return sorting; }
  ...
  let ths = table.querySelectorAll("thead th");
  let tbody = table.querySelector("tbody");
  let trs = table.querySelectorAll(`tr:not(.${CLASS.TR.NO_DATA})`);
  let rows = Array.from(trs);
  rows.forEach((row, index) => {
      if (!row.classList.contains(CLASS.TR.BASE)) { row.classList.add(CLASS.TR.BASE); }
      ...
  });
  rows.shift();
  ths.forEach((th) => {
      ...
      th.classList.add(CLASS.TH.BASE);
      if (exclude.some(...)) {
          ...
          th.classList.add(CLASS.SORT.DISABLED);
          th.classList.remove(CLASS.SORT.ENABLED);
          return;
      } else {
          ...
          th.classList.add(CLASS.SORT.ENABLED);
          th.classList.remove(CLASS.SORT.DISABLED);
      }
      th.addEventListener("click", (e) => { ... });
  });
  \<close>
  \<open>rows.shift()\<close> takes the row of the header away, so \<open>rows\<close> holds the rows of the body
  that are not \<open>NO_DATA\<close> rows. Nothing guards \<open>addEventListener\<close>: every call of \<open>toSort\<close>
  adds one more listener to a header cell that is not excluded.
\<close>

definition toSort_th :: "(th \<Rightarrow> string \<Rightarrow> bool) \<Rightarrow> exclude_item list \<Rightarrow> th \<Rightarrow> th" where
  "toSort_th matches exclude h =
     (let h1 = th_add CLASS_TH_BASE h
      in if list_ex (exclude_some matches h1) exclude
         then th_remove CLASS_SORT_ENABLED (th_add CLASS_SORT_DISABLED h1)
         else th_remove CLASS_SORT_DISABLED (th_add CLASS_SORT_ENABLED h1))"

definition toSort_listens :: "(th \<Rightarrow> string \<Rightarrow> bool) \<Rightarrow> exclude_item list \<Rightarrow> th \<Rightarrow> bool" where
  "toSort_listens matches exclude h =
     (\<not> list_ex (exclude_some matches (th_add CLASS_TH_BASE h)) exclude)"

definition toSort ::
  "(th \<Rightarrow> string \<Rightarrow> bool) \<Rightarrow> bool \<Rightarrow> bool \<Rightarrow> exclude_item list \<Rightarrow> sort_table \<Rightarrow> sort_table" where
  "toSort matches ascending sorting exclude st =
     (if \<not> sorting then st
      else
        (let rows =
               filter (\<lambda>i. \<not> classList_contains (tr_classList (st_rows st ! i)) CLASS_TR_NO_DATA)
                 (st_tbody st);
             listener =
               \<lparr>sl_ascending = ascending,
                sl_rows = rows,
                sl_ths =
                  filter (\<lambda>k. toSort_listens matches exclude (st_ths st ! k))
                    [0 ..< length (st_ths st)]\<rparr>
         in st\<lparr>st_rows :=
                 map (\<lambda>(i, row).
                        if i \<in> set rows
                        then row\<lparr>tr_classList := classList_add CLASS_TR_BASE (tr_classList row)\<rparr>
                        else row)
                   (enumerate 0 (st_rows st)),
               st_ths := map (toSort_th matches exclude) (st_ths st),
               st_listeners := st_listeners st @ [listener]\<rparr>))"

text \<open>
  \<open>rows.sort(...).forEach((row) => { tbody.removeChild(row); tbody.appendChild(row); })\<close>:
  every row of the array goes to the end of the body, in the order of the array.
  \<open>removeChild\<close> throws when the row is no child of the body; the listener ends there
  (\<open>False\<close>), with the rows moved so far.
\<close>

fun reappend :: "nat list \<Rightarrow> nat list \<Rightarrow> nat list \<times> bool" where
  "reappend [] body = (body, True)"
| "reappend (row # rows) body =
     (if row \<in> set body then reappend rows (remove1 row body @ [row]) else (body, False))"

text \<open>
  One run of the listener that the \<open>n\<close>-th call of \<open>toSort\<close> added, for a click on the
  header cell at position \<open>k\<close> of \<open>ths\<close> (\<open>e.target\<close>); \<open>srt\<close> is the sort of the engine.
  \<^verbatim>\<open>
  let columnIndex = e.target.cellIndex;
  if (e.target.classList.contains(CLASS.SORT.DESCENDING)) {
      rows.sort((a, b) => { return a.index - b.index; })
          .forEach((row) => { tbody.removeChild(row); tbody.appendChild(row); });
      e.target.classList.remove(CLASS.SORT.DESCENDING);
  } else {
      currentSort = e.target.classList.contains(CLASS.SORT.ASCENDING) ? !ascending : ascending;
      rows.sort(...).forEach((row) => { tbody.removeChild(row); tbody.appendChild(row); });
      ths.forEach((th) => { th.classList.remove(CLASS.SORT.ASCENDING, CLASS.SORT.DESCENDING); });
      e.target.classList.add(currentSort ? CLASS.SORT.ASCENDING : CLASS.SORT.DESCENDING);
  }
  \<close>
\<close>

definition listener_run ::
  "((nat \<Rightarrow> nat \<Rightarrow> jsnum) \<Rightarrow> nat list \<Rightarrow> nat list) \<Rightarrow> (string \<Rightarrow> string \<Rightarrow> jsnum) \<Rightarrow>
   nat \<Rightarrow> nat \<Rightarrow> sort_table \<Rightarrow> sort_table" where
  "listener_run srt localeCompare n k st =
     (let l = st_listeners st ! n;
          e_target = st_ths st ! k;
          columnIndex = th_cellIndex e_target
      in if classList_contains (th_classList e_target) CLASS_SORT_DESCENDING then
           (let rows = srt (\<lambda>a b. index_cmp (st_rows st ! a) (st_rows st ! b)) (sl_rows l);
                moved = reappend rows (st_tbody st);
                st1 = st\<lparr>st_listeners := (st_listeners st)[n := l\<lparr>sl_rows := rows\<rparr>],
                         st_tbody := fst moved\<rparr>
            in if snd moved
               then st1\<lparr>st_ths := (st_ths st)[k := th_remove CLASS_SORT_DESCENDING e_target]\<rparr>
               else st1)
         else
           (let currentSort =
                  (if classList_contains (th_classList e_target) CLASS_SORT_ASCENDING
                   then \<not> sl_ascending l else sl_ascending l);
                rows =
                  srt (\<lambda>a b. column_cmp localeCompare currentSort columnIndex
                                (st_rows st ! a) (st_rows st ! b))
                    (sl_rows l);
                moved = reappend rows (st_tbody st);
                st1 = st\<lparr>st_listeners := (st_listeners st)[n := l\<lparr>sl_rows := rows\<rparr>],
                         st_tbody := fst moved\<rparr>;
                cleared =
                  map (\<lambda>h. th_remove CLASS_SORT_DESCENDING (th_remove CLASS_SORT_ASCENDING h))
                    (st_ths st)
            in if snd moved
               then st1\<lparr>st_ths :=
                        cleared[k := th_add (if currentSort then CLASS_SORT_ASCENDING
                                             else CLASS_SORT_DESCENDING) (cleared ! k)]\<rparr>
               else st1))"

text \<open>
  A click of the user on the header cell at position \<open>k\<close>: the browser runs the listeners
  of the cell one after the other, in the order in which they were added, each on the
  table as the one before left it. A position outside \<open>ths\<close> is no header cell: nothing is
  clicked.
\<close>

definition click ::
  "((nat \<Rightarrow> nat \<Rightarrow> jsnum) \<Rightarrow> nat list \<Rightarrow> nat list) \<Rightarrow> (string \<Rightarrow> string \<Rightarrow> jsnum) \<Rightarrow>
   nat \<Rightarrow> sort_table \<Rightarrow> sort_table" where
  "click srt localeCompare k st =
     (if length (st_ths st) \<le> k then st
      else
        fold (\<lambda>n s. if k \<in> set (sl_ths (st_listeners s ! n))
                     then listener_run srt localeCompare n k s else s)
          [0 ..< length (st_listeners st)] st)"

text \<open>
  The sort listeners of a table that is in the page, with no remote source and no data
  set (the last branch of \<open>toInitialize\<close>, which the constructor \<open>TableJS\<close> calls):
  \<^verbatim>\<open>
  } else {
      preInitialize(instance);
      postInitialize(instance);
  }
  \<close>
  and both \<open>preInitialize\<close> and \<open>postInitialize\<close> run
  \<^verbatim>\<open>
  if (table && table.sort) {
      toSort({ table, ...table.sort });
  }
  \<close>
  where \<open>table.sort\<close> is the option \<open>sort\<close> of the constructor, or
  \<open>{ ascending: true, exclude: [] }\<close>. The other steps of the two functions add no sort
  listener and leave the order of the rows and the sort markers as they are. Before it
  calls \<open>toInitialize\<close>, the constructor gives every header cell the class \<open>TH.BASE\<close> and
  every row of the body the classes \<open>TR.BASE\<close> and \<open>TR.VISIBLE\<close> and its position as
  \<open>index\<close>.
\<close>

definition toInitialize_sort ::
  "(th \<Rightarrow> string \<Rightarrow> bool) \<Rightarrow> bool \<Rightarrow> bool \<Rightarrow> exclude_item list \<Rightarrow> sort_table \<Rightarrow> sort_table" where
  "toInitialize_sort matches ascending sorting exclude st =
     toSort matches ascending sorting exclude (toSort matches ascending sorting exclude st)"

definition static_table :: "th list \<Rightarrow> tr list \<Rightarrow> sort_table" where
  "static_table ths rows =
     \<lparr>st_ths = ths, st_rows = rows, st_tbody = [0 ..< length rows], st_listeners = []\<rparr>"

section \<open>\<open>validateVariable\<close>\<close>

text \<open>
  Two operators of the language are arguments of the model, since their results depend
  on more than the values show: \<open>value == reference\<close> (\<open>abstract_equals\<close>) and
  \<open>key in object\<close> for an object that is not \<open>null\<close> (\<open>has_property\<close>, which also finds
  inherited properties).
\<close>

record runtime =
  abstract_equals :: "jsval \<Rightarrow> jsval \<Rightarrow> bool"
  has_property :: "jsval \<Rightarrow> string \<Rightarrow> bool"

text \<open>\<open>typeof value\<close>, \<open>value instanceof cls\<close>, the truth value of a value, and the
  comparison of \<open>Array.prototype.includes\<close>, which finds \<open>NaN\<close>.\<close>

fun typeof :: "jsval \<Rightarrow> string" where
  "typeof VUndefined = ''undefined''"
| "typeof VNull = ''object''"
| "typeof (VBool _) = ''boolean''"
| "typeof (VNum _) = ''number''"
| "typeof (VStr _) = ''string''"
| "typeof (VArr _ _) = ''object''"
| "typeof (VObj _ _) = ''object''"
| "typeof (VFun _) = ''function''"
| "typeof (VElem _) = ''object''"

fun instanceof :: "jsval \<Rightarrow> ctor \<Rightarrow> bool" where
  "instanceof (VArr _ _) CArray = True"
| "instanceof (VArr _ _) CObject = True"
| "instanceof (VObj _ _) CObject = True"
| "instanceof (VFun _) CObject = True"
| "instanceof (VElem _) CObject = True"
| "instanceof (VElem _) CElement = True"
| "instanceof _ _ = False"

fun truthy :: "jsval \<Rightarrow> bool" where
  "truthy VUndefined = False"
| "truthy VNull = False"
| "truthy (VBool b) = b"
| "truthy (VNum NaN) = False"
| "truthy (VNum (Fin v)) = (v \<noteq> 0)"
| "truthy (VStr s) = (s \<noteq> [])"
| "truthy _ = True"

fun includes_value :: "jsval list \<Rightarrow> jsval \<Rightarrow> bool" where
  "includes_value [] v = False"
| "includes_value (x # xs) v =
     (strict_equals x v \<or> (x = VNum NaN \<and> v = VNum NaN) \<or> includes_value xs v)"

text \<open>The entries of a rule given as one value or as an array, and whether the rule as
  written is truthy: an array is, one string is unless it is empty, a class is.\<close>

fun spec_list :: "'a spec \<Rightarrow> 'a list" where
  "spec_list (One x) = [x]"
| "spec_list (Many xs) = xs"

fun truthy_strings :: "string spec \<Rightarrow> bool" where
  "truthy_strings (One s) = (s \<noteq> [])"
| "truthy_strings (Many _) = True"

text \<open>
  \<^verbatim>\<open>
  let validateTypeOf = (value, types, strict = false) => {
      let typeCallback = (type) => typeof value === type;
      if (typeof types === "string") { types = [types]; }
      return strict ? types.every(typeCallback) : types.some(typeCallback);
  };
  let validateInstanceOf = (value, classes, strict = false) => {
      ...
      classes = Array.isArray(classes) ? classes : [classes];
      return strict ? classes.every(instanceOfCallback) : classes.some(instanceOfCallback);
  };
  let validateInObject = (value, object) => { ... return object.includes(value); ... };
  \<close>
\<close>

definition validateTypeOf :: "jsval \<Rightarrow> string spec \<Rightarrow> bool \<Rightarrow> bool" where
  "validateTypeOf v types strict =
     (if strict then list_all (\<lambda>t. typeof v = t) (spec_list types)
      else list_ex (\<lambda>t. typeof v = t) (spec_list types))"

definition validateInstanceOf :: "jsval \<Rightarrow> ctor spec \<Rightarrow> bool \<Rightarrow> bool" where
  "validateInstanceOf v classes strict =
     (if strict then list_all (instanceof v) (spec_list classes)
      else list_ex (instanceof v) (spec_list classes))"

definition validateInObject :: "jsval \<Rightarrow> jsval list \<Rightarrow> bool" where
  "validateInObject v object = includes_value object v"

text \<open>
  \<^verbatim>\<open>
  let validateHasObject = (value, keys, strict = false) => {
      if (Array.isArray(value)) {
          if (Array.isArray(keys)) {
              return strict ? keys.every((key) => value.includes(key))
                            : keys.some((key) => value.includes(key));
          } else { return value.includes(keys); }
      } else if (typeof value === "object") {
          if (Array.isArray(keys)) {
              return strict ? keys.every((key) => key in value) : keys.some((key) => key in value);
          } else { return keys in value; }
      }
      return false;
  };
  \<close>
  \<open>typeof null\<close> is \<open>"object"\<close>, and \<open>key in null\<close> throws a \<open>TypeError\<close>.
\<close>

definition validateHasObject :: "runtime \<Rightarrow> jsval \<Rightarrow> string spec \<Rightarrow> bool \<Rightarrow> error + bool" where
  "validateHasObject rt v keys strict =
     (case v of
        VArr _ xs \<Rightarrow>
          (case keys of
             Many ks \<Rightarrow>
               Inr (if strict then list_all (\<lambda>key. includes_value xs (VStr key)) ks
                    else list_ex (\<lambda>key. includes_value xs (VStr key)) ks)
           | One key \<Rightarrow> Inr (includes_value xs (VStr key)))
      | VNull \<Rightarrow>
          (case keys of
             Many ks \<Rightarrow> if ks = [] then Inr strict else Inl TypeError
           | One key \<Rightarrow> Inl TypeError)
      | _ \<Rightarrow>
          if typeof v = ''object'' then
            (case keys of
               Many ks \<Rightarrow>
                 Inr (if strict then list_all (has_property rt v) ks
                      else list_ex (has_property rt v) ks)
             | One key \<Rightarrow> Inr (has_property rt v key))
          else Inr False)"

text \<open>
  \<^verbatim>\<open>
  let validateExecute = (value, verifyCallback) => {
      if (typeof verifyCallback === "function") {
          try {
              let callbackValue = verifyCallback(value);
              return { value: callbackValue, output: !!callbackValue };
          } catch (e) { return { value: false, output: false }; }
      }
      return { value: verifyCallback, output: false };
  };
  \<close>
  A callback is a function from the value to its result, \<open>None\<close> when it throws.
\<close>

definition validateExecute :: "jsval \<Rightarrow> (jsval \<Rightarrow> jsval option) \<Rightarrow> jsval \<times> bool" where
  "validateExecute v verifyCallback =
     (case verifyCallback v of
        Some callbackValue \<Rightarrow> (callbackValue, truthy callbackValue)
      | None \<Rightarrow> (VBool False, False))"

text \<open>
  A condition of \<open>$or\<close> or \<open>$and\<close>: an object with one rule (as all conditions of the
  repository are), the value \<open>true\<close>, or anything else. A regular expression is given by
  what its \<open>test\<close> returns on a value.
\<close>

datatype cond =
    CInstanceOf "ctor spec"
  | CTypeOf "string spec"
  | CIn "jsval list"
  | CHas "string spec"
  | CEquals jsval
  | CStrictEquals jsval
  | CExecute "jsval \<Rightarrow> jsval option"
  | CPattern "jsval \<Rightarrow> bool"
  | CAnd "cond list"
  | COr "cond list"
  | CTrue
  | COther

text \<open>
  \<^verbatim>\<open>
  let logicalCallback = (value, cond, strict = false) => {
      if (cond.instanceOf) { return validateInstanceOf(value, cond.instanceOf, strict); }
      else if (cond.typeOf) { return validateTypeOf(value, cond.typeOf, strict); }
      else if (cond.in) { return validateInObject(value, cond.in, strict); }
      else if (cond.has) { return validateHasObject(value, cond.has, strict); }
      else if (cond.equals) { return validateEquals(value, cond.equals).output; }
      else if (cond.strictEquals) { return validateStrictEquals(value, cond.strictEquals).output; }
      else if (cond.execute) { return validateExecute(value, cond.execute).output; }
      else if (cond.$and) { return validateLogicalAnd(value, cond.$and); }
      else if (cond.$or) { return validateLogicalOr(value, cond.$or); }
      else if (typeof cond === "boolean" && /^(true)$/.test(cond)) { return true; }
      return false;
  };
  let validateLogicalOr = (value, conditions) => {
      return conditions.some((cond) => logicalCallback(value, cond, false));
  };
  let validateLogicalAnd = (value, conditions) => {
      return conditions.every((cond) => logicalCallback(value, cond, true));
  };
  \<close>
  A rule whose operand is falsy (\<open>equals: 0\<close>, \<open>strictEquals: false\<close>, \<open>typeOf: ""\<close>) is
  passed over, which leaves \<open>false\<close>. \<open>some\<close> and \<open>every\<close> stop at the first condition
  that decides, and at the first that throws.
\<close>

fun logicalCallback :: "runtime \<Rightarrow> jsval \<Rightarrow> cond \<Rightarrow> bool \<Rightarrow> error + bool"
  and validateLogicalOr :: "runtime \<Rightarrow> jsval \<Rightarrow> cond list \<Rightarrow> error + bool"
  and validateLogicalAnd :: "runtime \<Rightarrow> jsval \<Rightarrow> cond list \<Rightarrow> error + bool"
where
  "logicalCallback rt v (CInstanceOf classes) strict = Inr (validateInstanceOf v classes strict)"
| "logicalCallback rt v (CTypeOf types) strict =
     Inr (truthy_strings types \<and> validateTypeOf v types strict)"
| "logicalCallback rt v (CIn object) strict = Inr (validateInObject v object)"
| "logicalCallback rt v (CHas keys) strict =
     (if truthy_strings keys then validateHasObject rt v keys strict else Inr False)"
| "logicalCallback rt v (CEquals reference) strict =
     Inr (truthy reference \<and> abstract_equals rt v reference)"
| "logicalCallback rt v (CStrictEquals reference) strict =
     Inr (truthy reference \<and> strict_equals v reference)"
| "logicalCallback rt v (CExecute verifyCallback) strict = Inr (snd (validateExecute v verifyCallback))"
| "logicalCallback rt v (CPattern p) strict = Inr False"
| "logicalCallback rt v (CAnd conditions) strict = validateLogicalAnd rt v conditions"
| "logicalCallback rt v (COr conditions) strict = validateLogicalOr rt v conditions"
| "logicalCallback rt v CTrue strict = Inr True"
| "logicalCallback rt v COther strict = Inr False"
| "validateLogicalOr rt v [] = Inr False"
| "validateLogicalOr rt v (c # cs) =
     (case logicalCallback rt v c False of
        Inl e \<Rightarrow> Inl e
      | Inr b \<Rightarrow> if b then Inr True else validateLogicalOr rt v cs)"
| "validateLogicalAnd rt v [] = Inr True"
| "validateLogicalAnd rt v (c # cs) =
     (case logicalCallback rt v c True of
        Inl e \<Rightarrow> Inl e
      | Inr b \<Rightarrow> if b then validateLogicalAnd rt v cs else Inr False)"

text \<open>
  \<open>validationCallback(type)(opt)\<close>: the line of the message for one condition. It
  computes the marker of the line, which is not shown, and for a nested \<open>$and\<close> or \<open>$or\<close>
  the value of \<open>validateLogicalAnd\<close> on it (on both), which is shown; that computation
  can throw. A rule with an operand that is falsy (\<open>typeOf\<close>, \<open>has\<close>) or \<open>undefined\<close>
  (\<open>equals\<close>, \<open>strictEquals\<close>) is not recognised.
\<close>

fun validationCallback :: "runtime \<Rightarrow> jsval \<Rightarrow> cond \<Rightarrow> error + line" where
  "validationCallback rt v (CTypeOf types) =
     Inr (if truthy_strings types then LTypeOf types else LInvalid)"
| "validationCallback rt v (CInstanceOf classes) = Inr (LInstanceOf classes)"
| "validationCallback rt v (CIn object) = Inr (LIn object)"
| "validationCallback rt v (CHas keys) = Inr (if truthy_strings keys then LHas keys else LInvalid)"
| "validationCallback rt v (CEquals reference) =
     Inr (if reference \<noteq> VUndefined then LEquals reference else LInvalid)"
| "validationCallback rt v (CStrictEquals reference) =
     Inr (if reference \<noteq> VUndefined then LStrictEquals reference else LInvalid)"
| "validationCallback rt v (CExecute verifyCallback) = Inr LExecute"
| "validationCallback rt v (CPattern p) = Inr LPattern"
| "validationCallback rt v (CAnd conditions) = map_sum id LAnd (validateLogicalAnd rt v conditions)"
| "validationCallback rt v (COr conditions) = map_sum id LOr (validateLogicalAnd rt v conditions)"
| "validationCallback rt v CTrue = Inr LInvalid"
| "validationCallback rt v COther = Inr LInvalid"

text \<open>\<open>conditions.map(validationCallback(type))\<close>, up to the first line that throws.\<close>

fun expectedTypes :: "runtime \<Rightarrow> jsval \<Rightarrow> cond list \<Rightarrow> error + line list" where
  "expectedTypes rt v [] = Inr []"
| "expectedTypes rt v (c # cs) =
     (case validationCallback rt v c of
        Inl e \<Rightarrow> Inl e
      | Inr l \<Rightarrow> map_sum id ((#) l) (expectedTypes rt v cs))"

text \<open>
  The rule set. \<open>$fallback\<close> and \<open>$transform\<close> are a value or a function of the caller.
  A rule that is absent is \<open>None\<close>; \<open>$fallback: undefined\<close> is an absent fallback.
\<close>

datatype action = ActValue jsval | ActFunction "jsval \<Rightarrow> jsval option"

record validations =
  v_or :: "cond list option"
  v_and :: "cond list option"
  v_variableName :: "string option"
  v_typeOf :: "string spec option"
  v_instanceOf :: "ctor spec option"
  v_in :: "jsval list option"
  v_has :: "string spec option"
  v_equals :: "jsval option"
  v_strictEquals :: "jsval option"
  v_execute :: "(jsval \<Rightarrow> jsval option) option"
  v_fallback :: "action option"
  v_pattern :: "(jsval \<Rightarrow> bool) option"
  v_transform :: "action option"

definition no_validations :: validations where
  "no_validations =
     \<lparr>v_or = None, v_and = None, v_variableName = None, v_typeOf = None, v_instanceOf = None,
      v_in = None, v_has = None, v_equals = None, v_strictEquals = None, v_execute = None,
      v_fallback = None, v_pattern = None, v_transform = None\<rparr>"

text \<open>
  \<^verbatim>\<open>
  let validateFallback = (errorMessage) => {
      switch (typeof $fallback) {
          case "undefined": throw new TableJSError(errorMessage);
          case "function": return $fallback(value);
          default: return $fallback;
      }
  };
  \<close>
\<close>

definition validateFallback :: "action option \<Rightarrow> jsval \<Rightarrow> error \<Rightarrow> error + jsval" where
  "validateFallback fallback v errorMessage =
     (case fallback of
        None \<Rightarrow> Inl errorMessage
      | Some (ActFunction f) \<Rightarrow> (case f v of None \<Rightarrow> Inl Thrown | Some r \<Rightarrow> Inr r)
      | Some (ActValue x) \<Rightarrow> if x = VUndefined then Inl errorMessage else Inr x)"

definition varName :: "validations \<Rightarrow> string" where
  "varName vs = (case v_variableName vs of None \<Rightarrow> ''variable'' | Some n \<Rightarrow> n)"

text \<open>
  The checks of \<open>validateVariable\<close> in their order. Each returns \<open>None\<close> when the check
  passes or its rule is absent, and otherwise how the call ends there.
  \<^verbatim>\<open>
  if ($or && !validateLogicalOr(value, $or)) {
      let expectedTypes = $or.map(validationCallback("or"));
      let errorMessage = `Expected '${varName}' ... must attain any of the following: ...`;
      return validateFallback(errorMessage);
  }
  if ($and && !validateLogicalAnd(value, $and)) { ... return validateFallback(errorMessage); }
  if (typeOf && !validateTypeOf(value, typeOf)) { ... return validateFallback(errorMessage); }
  if (inObject !== undefined && !validateInObject(value, inObject)) { ... }
  if (has !== undefined && !validateHasObject(value, has)) { ... }
  if (instanceOf && !validateInstanceOf(value, instanceOf)) { ... }
  \<close>
\<close>

definition check_or :: "runtime \<Rightarrow> jsval \<Rightarrow> validations \<Rightarrow> (error + jsval) option" where
  "check_or rt v vs =
     (case v_or vs of
        None \<Rightarrow> None
      | Some conditions \<Rightarrow>
          (case validateLogicalOr rt v conditions of
             Inl e \<Rightarrow> Some (Inl e)
           | Inr b \<Rightarrow>
               if b then None
               else (case expectedTypes rt v conditions of
                       Inl e \<Rightarrow> Some (Inl e)
                     | Inr ls \<Rightarrow>
                         Some (validateFallback (v_fallback vs) v
                                 (TableJSError (varName vs) v (AttainAny ls))))))"

definition check_and :: "runtime \<Rightarrow> jsval \<Rightarrow> validations \<Rightarrow> (error + jsval) option" where
  "check_and rt v vs =
     (case v_and vs of
        None \<Rightarrow> None
      | Some conditions \<Rightarrow>
          (case validateLogicalAnd rt v conditions of
             Inl e \<Rightarrow> Some (Inl e)
           | Inr b \<Rightarrow>
               if b then None
               else (case expectedTypes rt v conditions of
                       Inl e \<Rightarrow> Some (Inl e)
                     | Inr ls \<Rightarrow>
                         Some (validateFallback (v_fallback vs) v
                                 (TableJSError (varName vs) v (AttainAll ls))))))"

definition check_typeOf :: "jsval \<Rightarrow> validations \<Rightarrow> (error + jsval) option" where
  "check_typeOf v vs =
     (case v_typeOf vs of
        None \<Rightarrow> None
      | Some types \<Rightarrow>
          if truthy_strings types \<and> \<not> validateTypeOf v types False
          then Some (validateFallback (v_fallback vs) v
                       (TableJSError (varName vs) v (MustBeTypeOf types)))
          else None)"

definition check_in :: "jsval \<Rightarrow> validations \<Rightarrow> (error + jsval) option" where
  "check_in v vs =
     (case v_in vs of
        None \<Rightarrow> None
      | Some object \<Rightarrow>
          if \<not> validateInObject v object
          then Some (validateFallback (v_fallback vs) v
                       (TableJSError (varName vs) v (MustBeIn object)))
          else None)"

definition check_has :: "runtime \<Rightarrow> jsval \<Rightarrow> validations \<Rightarrow> (error + jsval) option" where
  "check_has rt v vs =
     (case v_has vs of
        None \<Rightarrow> None
      | Some keys \<Rightarrow>
          (case validateHasObject rt v keys False of
             Inl e \<Rightarrow> Some (Inl e)
           | Inr b \<Rightarrow>
               if b then None
               else Some (validateFallback (v_fallback vs) v
                            (TableJSError (varName vs) v (MustHave keys)))))"

definition check_instanceOf :: "jsval \<Rightarrow> validations \<Rightarrow> (error + jsval) option" where
  "check_instanceOf v vs =
     (case v_instanceOf vs of
        None \<Rightarrow> None
      | Some classes \<Rightarrow>
          if \<not> validateInstanceOf v classes False
          then Some (validateFallback (v_fallback vs) v
                       (TableJSError (varName vs) v (MustBeInstanceOf classes)))
          else None)"

text \<open>
  \<^verbatim>\<open>
  if (equals !== undefined && !validateEquals(value, equals).output) {
      return validateFallback(
          `Expected '${varName}' with a value of ${JSON.stringify(value)}
           must be equals to ${JSON.stringify(equalsValue)}`);
  }
  if (strictEquals !== undefined && !validateStrictEquals(value, strictEquals).output) {
      return validateFallback(
          `Expected ... must be strictly equals to ${JSON.stringify(strictEqualsValue)}`);
  }
  \<close>
  No \<open>equalsValue\<close> and no \<open>strictEqualsValue\<close> is declared in this scope (they are
  constants of a block inside \<open>validationCallback\<close>): evaluating the argument of
  \<open>validateFallback\<close> throws a \<open>ReferenceError\<close>, and \<open>validateFallback\<close> is not called.
\<close>

definition check_equals :: "runtime \<Rightarrow> jsval \<Rightarrow> validations \<Rightarrow> (error + jsval) option" where
  "check_equals rt v vs =
     (case v_equals vs of
        None \<Rightarrow> None
      | Some reference \<Rightarrow>
          if reference \<noteq> VUndefined \<and> \<not> abstract_equals rt v reference
          then Some (Inl (ReferenceError ''equalsValue''))
          else None)"

definition check_strictEquals :: "jsval \<Rightarrow> validations \<Rightarrow> (error + jsval) option" where
  "check_strictEquals v vs =
     (case v_strictEquals vs of
        None \<Rightarrow> None
      | Some reference \<Rightarrow>
          if reference \<noteq> VUndefined \<and> \<not> strict_equals v reference
          then Some (Inl (ReferenceError ''strictEqualsValue''))
          else None)"

text \<open>
  \<^verbatim>\<open>
  const { value: executionValue, output: executionBoolean } = validateExecute(value, execute);
  if (execute !== undefined && !executionBoolean) { return validateFallback(...); }
  if (pattern !== undefined && !validatePattern(value, pattern)) { return validateFallback(...); }
  if (typeof $transform !== "undefined") {
      switch (typeof $transform) {
          case "function": return $transform(value);
          default: return $transform;
      }
  }
  return value;
  \<close>
\<close>

definition check_execute :: "jsval \<Rightarrow> validations \<Rightarrow> (error + jsval) option" where
  "check_execute v vs =
     (case v_execute vs of
        None \<Rightarrow> None
      | Some verifyCallback \<Rightarrow>
          (let r = validateExecute v verifyCallback
           in if \<not> snd r
              then Some (validateFallback (v_fallback vs) v
                           (TableJSError (varName vs) v (MustExecute (fst r) (snd r))))
              else None))"

definition check_pattern :: "jsval \<Rightarrow> validations \<Rightarrow> (error + jsval) option" where
  "check_pattern v vs =
     (case v_pattern vs of
        None \<Rightarrow> None
      | Some p \<Rightarrow>
          if \<not> p v
          then Some (validateFallback (v_fallback vs) v
                       (TableJSError (varName vs) v MustMatchPattern))
          else None)"

definition apply_transform :: "jsval \<Rightarrow> validations \<Rightarrow> error + jsval" where
  "apply_transform v vs =
     (case v_transform vs of
        None \<Rightarrow> Inr v
      | Some (ActFunction f) \<Rightarrow> (case f v of None \<Rightarrow> Inl Thrown | Some r \<Rightarrow> Inr r)
      | Some (ActValue x) \<Rightarrow> if x = VUndefined then Inr v else Inr x)"

text \<open>The first check that ends the call decides; when none does, the value is
  transformed and returned.\<close>

definition validateVariable :: "runtime \<Rightarrow> jsval \<Rightarrow> validations \<Rightarrow> error + jsval" where
  "validateVariable rt v vs =
     (case check_or rt v vs of Some r \<Rightarrow> r | None \<Rightarrow>
      case check_and rt v vs of Some r \<Rightarrow> r | None \<Rightarrow>
      case check_typeOf v vs of Some r \<Rightarrow> r | None \<Rightarrow>
      case check_in v vs of Some r \<Rightarrow> r | None \<Rightarrow>
      case check_has rt v vs of Some r \<Rightarrow> r | None \<Rightarrow>
      case check_instanceOf v vs of Some r \<Rightarrow> r | None \<Rightarrow>
      case check_equals rt v vs of Some r \<Rightarrow> r | None \<Rightarrow>
      case check_strictEquals v vs of Some r \<Rightarrow> r | None \<Rightarrow>
      case check_execute v vs of Some r \<Rightarrow> r | None \<Rightarrow>
      case check_pattern v vs of Some r \<Rightarrow> r | None \<Rightarrow>
      apply_transform v vs)"

section \<open>Properties of \<open>Array.prototype.sort\<close>\<close>

lemma mset_sort_insert: "mset (sort_insert cmp x ys) = add_mset x (mset ys)"
  by (induction ys) simp_all

lemma mset_stable_sort: "mset (stable_sort cmp xs) = mset xs"
  by (induction xs) (simp_all add: stable_sort_def mset_sort_insert)

lemma conforming_stable_sort: "conforming_sort stable_sort"
  by (simp add: conforming_sort_def mset_stable_sort)

lemma conforming_mset: "conforming_sort srt \<Longrightarrow> mset (srt cmp xs) = mset xs"
  by (simp add: conforming_sort_def)

lemma conforming_length: "conforming_sort srt \<Longrightarrow> length (srt cmp xs) = length xs"
  by (metis conforming_mset size_mset)

lemma conforming_consistent:
  "conforming_sort srt \<Longrightarrow> consistent_comparator cmp (set xs) \<Longrightarrow> srt cmp xs = stable_sort cmp xs"
  by (simp add: conforming_sort_def)

text \<open>The stable insertion sort returns the elements in ascending order of a consistent
  comparator: no element is greater than a later one.\<close>

lemma consistent_not_positive_trans:
  assumes "consistent_comparator cmp S" and "a \<in> S" and "b \<in> S" and "c \<in> S"
    and "\<not> cmp_positive (cmp a b)" and "\<not> cmp_positive (cmp b c)"
  shows "\<not> cmp_positive (cmp a c)"
proof
  assume ac: "cmp_positive (cmp a c)"
  have tri: "\<And>v. cmp_positive v \<or> cmp_zero v \<or> cmp_negative v"
    subgoal for v by (cases v) auto
    done
  have excl: "\<And>v. \<not> (cmp_positive v \<and> cmp_zero v) \<and> \<not> (cmp_positive v \<and> cmp_negative v)
      \<and> \<not> (cmp_zero v \<and> cmp_negative v)"
    subgoal for v by (cases v) auto
    done
  note c = assms(1) [unfolded consistent_comparator_def]
  from c assms(2-4) have refl: "cmp_zero (cmp a a)" "cmp_zero (cmp b b)" "cmp_zero (cmp c c)"
    by blast+
  from c have sym: "\<And>x y. x \<in> S \<Longrightarrow> y \<in> S \<Longrightarrow> cmp_zero (cmp x y) \<Longrightarrow> cmp_zero (cmp y x)"
    by blast
  from c have tz: "\<And>x y z. x \<in> S \<Longrightarrow> y \<in> S \<Longrightarrow> z \<in> S \<Longrightarrow>
      cmp_zero (cmp x y) \<Longrightarrow> cmp_zero (cmp y z) \<Longrightarrow> cmp_zero (cmp x z)"
    by blast
  from c have tn: "\<And>x y z. x \<in> S \<Longrightarrow> y \<in> S \<Longrightarrow> z \<in> S \<Longrightarrow>
      cmp_negative (cmp x y) \<Longrightarrow> cmp_negative (cmp y z) \<Longrightarrow> cmp_negative (cmp x z)"
    by blast
  from c have tp: "\<And>x y z. x \<in> S \<Longrightarrow> y \<in> S \<Longrightarrow> z \<in> S \<Longrightarrow>
      cmp_positive (cmp x y) \<Longrightarrow> cmp_positive (cmp y z) \<Longrightarrow> cmp_positive (cmp x z)"
    by blast
  have anti: "\<And>x y. x \<in> S \<Longrightarrow> y \<in> S \<Longrightarrow> cmp_negative (cmp x y) \<Longrightarrow> cmp_positive (cmp y x)"
  proof -
    fix x y assume xy: "x \<in> S" "y \<in> S" "cmp_negative (cmp x y)"
    from tri [of "cmp y x"] show "cmp_positive (cmp y x)"
    proof (elim disjE)
      assume "cmp_zero (cmp y x)"
      with sym xy have "cmp_zero (cmp x y)" by blast
      with xy excl show ?thesis by blast
    next
      assume "cmp_negative (cmp y x)"
      with tn xy have "cmp_negative (cmp x x)" by blast
      moreover from c xy have "cmp_zero (cmp x x)" by blast
      ultimately show ?thesis using excl by blast
    qed
  qed
  have anti': "\<And>x y. x \<in> S \<Longrightarrow> y \<in> S \<Longrightarrow> cmp_positive (cmp x y) \<Longrightarrow> cmp_negative (cmp y x)"
  proof -
    fix x y assume xy: "x \<in> S" "y \<in> S" "cmp_positive (cmp x y)"
    from tri [of "cmp y x"] show "cmp_negative (cmp y x)"
    proof (elim disjE)
      assume "cmp_zero (cmp y x)"
      with sym xy have "cmp_zero (cmp x y)" by blast
      with xy excl show ?thesis by blast
    next
      assume "cmp_positive (cmp y x)"
      with tp xy have "cmp_positive (cmp x x)" by blast
      moreover from c xy have "cmp_zero (cmp x x)" by blast
      ultimately show ?thesis using excl by blast
    qed
  qed
  from assms(5) tri have ab: "cmp_zero (cmp a b) \<or> cmp_negative (cmp a b)" by blast
  from assms(6) tri have bc: "cmp_zero (cmp b c) \<or> cmp_negative (cmp b c)" by blast
  from ac anti' assms(2,4) have ca: "cmp_negative (cmp c a)" by blast
  from ab show False
  proof
    assume abn: "cmp_negative (cmp a b)"
    with ca tn assms(2-4) have cb: "cmp_negative (cmp c b)" by blast
    then have "cmp_positive (cmp b c)" using anti assms(3,4) by blast
    with assms(6) show False by blast
  next
    assume abz: "cmp_zero (cmp a b)"
    from bc show False
    proof
      assume "cmp_zero (cmp b c)"
      with abz tz assms(2-4) have "cmp_zero (cmp a c)" by blast
      with ac excl show False by blast
    next
      assume bcn: "cmp_negative (cmp b c)"
      with ca tn assms(2-4) have ba: "cmp_negative (cmp b a)" by blast
      from abz sym assms(2,3) have "cmp_zero (cmp b a)" by blast
      with ba excl show False by blast
    qed
  qed
qed

lemma set_sort_insert: "set (sort_insert cmp x ys) = insert x (set ys)"
  by (induction ys) auto

lemma set_stable_sort: "set (stable_sort cmp xs) = set xs"
  by (induction xs) (simp_all add: stable_sort_def set_sort_insert)

lemma sorted_sort_insert:
  assumes "consistent_comparator cmp S" and "x \<in> S" and "set ys \<subseteq> S"
    and "sorted_wrt (\<lambda>a b. \<not> cmp_positive (cmp a b)) ys"
  shows "sorted_wrt (\<lambda>a b. \<not> cmp_positive (cmp a b)) (sort_insert cmp x ys)"
  using assms(3,4)
proof (induction ys)
  case Nil
  then show ?case by simp
next
  case (Cons y ys)
  show ?case
  proof (cases "cmp_positive (cmp x y)")
    case True
    have yx: "\<not> cmp_positive (cmp y x)"
    proof
      assume "cmp_positive (cmp y x)"
      with True assms(1,2) Cons.prems(1) have "cmp_positive (cmp x x)"
        unfolding consistent_comparator_def by (meson list.set_intros(1) subsetD)
      moreover from assms(1,2) have "cmp_zero (cmp x x)"
        unfolding consistent_comparator_def by blast
      ultimately show False by (cases "cmp x x") auto
    qed
    from Cons have "sorted_wrt (\<lambda>a b. \<not> cmp_positive (cmp a b)) (sort_insert cmp x ys)" by simp
    with True yx Cons.prems show ?thesis by (auto simp: set_sort_insert)
  next
    case False
    have "\<forall>z \<in> set ys. \<not> cmp_positive (cmp x z)"
    proof
      fix z assume z: "z \<in> set ys"
      with Cons.prems have "\<not> cmp_positive (cmp y z)" by simp
      with False show "\<not> cmp_positive (cmp x z)"
        using consistent_not_positive_trans [OF assms(1), of x y z] assms(2) Cons.prems(1) z
        by auto
    qed
    with False Cons.prems show ?thesis by simp
  qed
qed

lemma sorted_stable_sort:
  "consistent_comparator cmp (set xs) \<Longrightarrow>
   sorted_wrt (\<lambda>a b. \<not> cmp_positive (cmp a b)) (stable_sort cmp xs)"
proof -
  assume c: "consistent_comparator cmp (set xs)"
  have "set ys \<subseteq> set xs \<Longrightarrow> sorted_wrt (\<lambda>a b. \<not> cmp_positive (cmp a b)) (stable_sort cmp ys)" for ys
  proof (induction ys)
    case Nil
    then show ?case by (simp add: stable_sort_def)
  next
    case (Cons y ys)
    then have "sorted_wrt (\<lambda>a b. \<not> cmp_positive (cmp a b)) (stable_sort cmp ys)" by simp
    with Cons.prems have "sorted_wrt (\<lambda>a b. \<not> cmp_positive (cmp a b))
        (sort_insert cmp y (stable_sort cmp ys))"
      by (intro sorted_sort_insert [OF c]) (simp_all add: set_stable_sort)
    then show ?case by (simp add: stable_sort_def)
  qed
  then show ?thesis by simp
qed

text \<open>The stable insertion sort keeps the elements that compare equal under a consistent
  comparator in their original order.\<close>

lemma stable_sort_insert:
  assumes "consistent_comparator cmp S" and "x \<in> S" and "set ys \<subseteq> S" and "z \<in> S"
  shows "filter (\<lambda>y. cmp_zero (cmp z y)) (sort_insert cmp x ys)
       = filter (\<lambda>y. cmp_zero (cmp z y)) (x # ys)"
  using assms(3)
proof (induction ys)
  case Nil
  then show ?case by simp
next
  case (Cons y ys)
  show ?case
  proof (cases "cmp_positive (cmp x y)")
    case False
    then show ?thesis by simp
  next
    case True
    from Cons have ih: "filter (\<lambda>y. cmp_zero (cmp z y)) (sort_insert cmp x ys)
       = filter (\<lambda>y. cmp_zero (cmp z y)) (x # ys)" by simp
    from Cons.prems have y: "y \<in> S" by simp
    have "\<not> (cmp_zero (cmp z x) \<and> cmp_zero (cmp z y))"
    proof
      assume both: "cmp_zero (cmp z x) \<and> cmp_zero (cmp z y)"
      with assms(1,2,4) have "cmp_zero (cmp x z)"
        unfolding consistent_comparator_def by blast
      with both assms(1,2,4) y have "cmp_zero (cmp x y)"
        unfolding consistent_comparator_def by blast
      with True show False by (cases "cmp x y") auto
    qed
    with True ih show ?thesis by auto
  qed
qed

lemma stable_stable_sort:
  assumes "consistent_comparator cmp (set xs)" and "z \<in> set xs"
  shows "filter (\<lambda>y. cmp_zero (cmp z y)) (stable_sort cmp xs)
       = filter (\<lambda>y. cmp_zero (cmp z y)) xs"
proof -
  have "set ys \<subseteq> set xs \<Longrightarrow>
      filter (\<lambda>y. cmp_zero (cmp z y)) (stable_sort cmp ys) = filter (\<lambda>y. cmp_zero (cmp z y)) ys"
    for ys
  proof (induction ys)
    case Nil
    then show ?case by (simp add: stable_sort_def)
  next
    case (Cons y ys)
    then have ih: "filter (\<lambda>y. cmp_zero (cmp z y)) (stable_sort cmp ys)
        = filter (\<lambda>y. cmp_zero (cmp z y)) ys" by simp
    have "filter (\<lambda>y. cmp_zero (cmp z y)) (sort_insert cmp y (stable_sort cmp ys))
        = filter (\<lambda>y. cmp_zero (cmp z y)) (y # stable_sort cmp ys)"
      using Cons.prems assms(2)
      by (intro stable_sort_insert [OF assms(1)]) (simp_all add: set_stable_sort)
    with ih show ?case by (simp add: stable_sort_def)
  qed
  then show ?thesis by simp
qed

section \<open>Properties of \<open>createPaginationCeiling\<close>\<close>

lemma sort_insert_numbers:
  "sort_insert minus_cmp (N x) (map N ys) = map N (insort x ys)"
  by (induction ys) (auto simp: minus_cmp_def)

lemma stable_sort_numbers: "stable_sort minus_cmp (map N xs) = map N (sort xs)"
  by (induction xs) (simp_all add: stable_sort_def sort_insert_numbers sort_key_def)

lemma consistent_minus_cmp_numbers: "consistent_comparator minus_cmp (set (map N xs))"
  by (auto simp: consistent_comparator_def minus_cmp_def)

lemma consistent_minus_cmp_pair: "consistent_comparator minus_cmp (set [N a, Star])"
  by (auto simp: consistent_comparator_def minus_cmp_def)

lemma findIndex_ge_minus_one: "-1 \<le> findIndex p xs"
  by (induction xs) (auto simp: Let_def)

lemma findIndex_none: "findIndex p xs = -1 \<longleftrightarrow> (\<forall>x \<in> set xs. \<not> p x)"
proof (induction xs)
  case Nil
  then show ?case by simp
next
  case (Cons x xs)
  have "-1 \<le> findIndex p xs" by (rule findIndex_ge_minus_one)
  with Cons show ?case by (auto simp: Let_def)
qed

lemma take_findIndex:
  "findIndex p xs \<noteq> -1 \<Longrightarrow>
   take (nat (findIndex p xs + 1)) xs =
     takeWhile (\<lambda>x. \<not> p x) xs @ take 1 (dropWhile (\<lambda>x. \<not> p x) xs)"
proof (induction xs)
  case Nil
  then show ?case by simp
next
  case (Cons x xs)
  show ?case
  proof (cases "p x")
    case True
    then show ?thesis by simp
  next
    case False
    with Cons.prems have ne: "findIndex p xs \<noteq> -1" by (auto simp: Let_def)
    have "-1 \<le> findIndex p xs" by (rule findIndex_ge_minus_one)
    with ne have pos: "0 \<le> findIndex p xs" by linarith
    then have "nat (findIndex p xs + 1 + 1) = Suc (nat (findIndex p xs + 1))" by linarith
    with False ne Cons.IH show ?thesis by (simp add: Let_def)
  qed
qed

lemma slice_findIndex:
  "length ys = length xs \<Longrightarrow>
   slice0 xs (if findIndex p xs \<noteq> -1 then findIndex p xs + 1 else int (length ys)) =
     takeWhile (\<lambda>x. \<not> p x) xs @ take 1 (dropWhile (\<lambda>x. \<not> p x) xs)"
proof (cases "findIndex p xs = -1")
  case True
  then have "\<forall>x \<in> set xs. \<not> p x" by (simp add: findIndex_none)
  then have tw: "takeWhile (\<lambda>x. \<not> p x) xs = xs" and dw: "dropWhile (\<lambda>x. \<not> p x) xs = []"
    by simp_all
  assume "length ys = length xs"
  with True show ?thesis by (simp add: slice0_def tw dw)
next
  case False
  then show ?thesis by (simp add: slice0_def take_findIndex)
qed

lemma createPaginationCeiling_prefix:
  "length (srt minus_cmp cs) = length cs \<Longrightarrow>
   createPaginationCeiling srt (Fin n) cs =
     takeWhile (\<lambda>c. \<not> item_ge c n) (srt minus_cmp cs)
       @ take 1 (dropWhile (\<lambda>c. \<not> item_ge c n) (srt minus_cmp cs))"
  unfolding createPaginationCeiling_def
  by (simp add: Let_def slice_findIndex)

lemma takeWhile_not_Star:
  "Star \<notin> set (takeWhile (\<lambda>c. \<not> item_ge c n) xs @ take 1 (dropWhile (\<lambda>c. \<not> item_ge c n) xs))
   \<longleftrightarrow> Star \<notin> set (takeWhile (\<lambda>c. \<not> item_ge c n) xs)"
proof (cases "dropWhile (\<lambda>c. \<not> item_ge c n) xs")
  case Nil
  show ?thesis unfolding Nil by simp
next
  case (Cons d ds)
  then have "item_ge d n" using hd_dropWhile [of "\<lambda>c. \<not> item_ge c n" xs] by auto
  then have "d \<noteq> Star" by auto
  with Cons show ?thesis by auto
qed

text \<open>
  C8 (as the code has it). For every number \<open>n\<close> and every engine, \<open>createPaginationCeiling\<close>
  returns the candidates, in the order in which the engine's sort with the comparator
  \<open>(a, b) => a - b\<close> leaves them, up to and including the first candidate \<open>\<ge> n\<close>, and all
  of them when no candidate qualifies. Numeric candidates are sorted ascending. The
  sentinel \<open>"*"\<close> never qualifies as the ceiling and gets no treatment of its own: the
  result holds it exactly when the engine's sort leaves it before the cut. So
  \<open>createPaginationCeiling(5, [10, "*"]) = [10]\<close> on every engine, and
  \<open>createPaginationCeiling(30, ["*", 10, 25, 50, 100]) = ["*", 10, 25, 50]\<close> on an engine
  whose sort leaves \<open>["*", 10, 25, 50, 100]\<close> as it is.
\<close>

theorem C8_ceiling_prefix_of_sorted:
  assumes "conforming_sort srt"
  shows "createPaginationCeiling srt (Fin n) cs =
           takeWhile (\<lambda>c. \<not> item_ge c n) (srt minus_cmp cs)
             @ take 1 (dropWhile (\<lambda>c. \<not> item_ge c n) (srt minus_cmp cs))
    \<and> createPaginationCeiling srt (Fin n) (map N xs) =
           map N (takeWhile (\<lambda>x. x < n) (sort xs) @ take 1 (dropWhile (\<lambda>x. x < n) (sort xs)))
    \<and> (Star \<in> set (createPaginationCeiling srt (Fin n) cs)
         \<longleftrightarrow> Star \<in> set (takeWhile (\<lambda>c. \<not> item_ge c n) (srt minus_cmp cs)))
    \<and> createPaginationCeiling srt (Fin 5) [N 10, Star] = [N 10]
    \<and> (srt minus_cmp [Star, N 10, N 25, N 50, N 100] = [Star, N 10, N 25, N 50, N 100]
         \<longrightarrow> createPaginationCeiling srt (Fin 30) [Star, N 10, N 25, N 50, N 100]
               = [Star, N 10, N 25, N 50])"
proof (intro conjI impI)
  have len: "length (srt minus_cmp ys) = length ys" for ys
    using assms by (rule conforming_length)
  show prefix: "createPaginationCeiling srt (Fin n) cs =
           takeWhile (\<lambda>c. \<not> item_ge c n) (srt minus_cmp cs)
             @ take 1 (dropWhile (\<lambda>c. \<not> item_ge c n) (srt minus_cmp cs))"
    by (rule createPaginationCeiling_prefix [of srt cs n, OF len])
  have numbers: "srt minus_cmp (map N xs) = map N (sort xs)"
    using conforming_consistent [OF assms consistent_minus_cmp_numbers]
    by (simp add: stable_sort_numbers)
  have ge: "(\<lambda>c. \<not> item_ge c n) \<circ> N = (\<lambda>x. x < n)" by (auto simp: fun_eq_iff)
  show "createPaginationCeiling srt (Fin n) (map N xs) =
           map N (takeWhile (\<lambda>x. x < n) (sort xs) @ take 1 (dropWhile (\<lambda>x. x < n) (sort xs)))"
    by (simp add: createPaginationCeiling_prefix [of srt "map N xs" n, OF len] numbers
        takeWhile_map dropWhile_map take_map ge)
  show "Star \<in> set (createPaginationCeiling srt (Fin n) cs)
         \<longleftrightarrow> Star \<in> set (takeWhile (\<lambda>c. \<not> item_ge c n) (srt minus_cmp cs))"
    unfolding prefix using takeWhile_not_Star [of n "srt minus_cmp cs"] by blast
  have "srt minus_cmp [N 10, Star] = stable_sort minus_cmp [N 10, Star]"
    by (rule conforming_consistent [OF assms consistent_minus_cmp_pair])
  then have pair: "srt minus_cmp [N 10, Star] = [N 10, Star]"
    by (simp add: stable_sort_def minus_cmp_def)
  show "createPaginationCeiling srt (Fin 5) [N 10, Star] = [N 10]"
    by (simp add: createPaginationCeiling_def pair slice0_def Let_def)
  assume "srt minus_cmp [Star, N 10, N 25, N 50, N 100] = [Star, N 10, N 25, N 50, N 100]"
  then show "createPaginationCeiling srt (Fin 30) [Star, N 10, N 25, N 50, N 100]
               = [Star, N 10, N 25, N 50]"
    by (simp add: createPaginationCeiling_def slice0_def Let_def)
qed

text \<open>The statement at the stable sort, which leaves \<open>["*", 10, 25, 50, 100]\<close> as it is.\<close>

theorem C8_ceiling_witness:
  "conforming_sort (stable_sort :: (item \<Rightarrow> item \<Rightarrow> jsnum) \<Rightarrow> item list \<Rightarrow> item list)
   \<and> stable_sort minus_cmp [Star, N 10, N 25, N 50, N 100] = [Star, N 10, N 25, N 50, N 100]
   \<and> createPaginationCeiling stable_sort (Fin 30) [N 50, N 10, N 100, N 25] = [N 10, N 25, N 50]
   \<and> createPaginationCeiling stable_sort (Fin 5) [N 10, Star] = [N 10]
   \<and> createPaginationCeiling stable_sort (Fin 30) [Star, N 10, N 25, N 50, N 100]
       = [Star, N 10, N 25, N 50]"
proof -
  have s: "stable_sort minus_cmp [Star, N 10, N 25, N 50, N 100] = [Star, N 10, N 25, N 50, N 100]"
    by (simp add: stable_sort_def minus_cmp_def)
  have srt: "sort [50, 10, 100, 25 :: int] = [10, 25, 50, 100]" by simp
  from C8_ceiling_prefix_of_sorted [OF conforming_stable_sort, of 30 "[]" "[50, 10, 100, 25]"]
  have "createPaginationCeiling stable_sort (Fin 30) [N 50, N 10, N 100, N 25] = [N 10, N 25, N 50]"
    by (simp add: srt)
  moreover from C8_ceiling_prefix_of_sorted [OF conforming_stable_sort, of 30 "[]" "[]"] s
  have "createPaginationCeiling stable_sort (Fin 5) [N 10, Star] = [N 10]"
    and "createPaginationCeiling stable_sort (Fin 30) [Star, N 10, N 25, N 50, N 100]
       = [Star, N 10, N 25, N 50]"
    by simp_all
  ultimately show ?thesis using s conforming_stable_sort by simp
qed

text \<open>
  C8 as stated fails where \<open>"*"\<close> lies behind the cut: the candidates \<open>[10, "*"]\<close> hold the
  sentinel, the comparator gives \<open>NaN\<close> on the only pair and is consistent on the two
  candidates, so the sort keeps their order, and the ceiling of \<open>5\<close> is \<open>[10]\<close>.
\<close>

theorem C8_sentinel_dropped:
  "Star \<in> set [N 10, Star] \<and> createPaginationCeiling stable_sort (Fin 5) [N 10, Star] = [N 10]"
  by (simp add: createPaginationCeiling_def stable_sort_def minus_cmp_def slice0_def Let_def)

section \<open>Properties of the page clamp\<close>

lemma collect_length: "collect xs = Inr ys \<Longrightarrow> length ys = length xs"
proof (induction xs arbitrary: ys)
  case Nil
  then show ?case by simp
next
  case (Cons x xs)
  then show ?case by (cases x; cases "collect xs") auto
qed

lemma Array_from_length: "Array_from n f = Inr ys \<Longrightarrow> length ys = nat n"
  by (auto simp: Array_from_def split: if_splits dest: collect_length)

text \<open>The pagination plan has \<open>Math.ceil(rowLength / rowLimit)\<close> pages.\<close>

lemma createPaginationItems_length:
  "createPaginationItems (Fin rowLength) (Fin rowLimit) = Inr pagination \<Longrightarrow> rowLimit \<noteq> 0 \<Longrightarrow>
   length pagination = nat (- ((- rowLength) div rowLimit))"
  by (simp add: Let_def Array_from_length)

lemma toLimit_local_page:
  assumes "createPaginationItems (totalLength totalRows rowLength)
             (limitCount (LimitNumber l) rowLength) = Inr pagination"
  shows "toLimit_local (LimitNumber l) totalRows rowLength page pagingLength =
     Inr (Math_min (Math_max (Fin 1) (toLimit_first_page False page pagingLength))
            (toNumber pagingLength (Fin (int (length pagination)))))"
  using assms by (simp add: toLimit_local_def Let_def)

text \<open>
  C3 (as the code has it). The clamp of \<open>toLimit\<close> and of \<open>processPagination\<close>,
  \<open>Math.min(Math.max(1, requested), pageCount)\<close>, returns
  \<open>max(1, min(requested, pageCount))\<close> for every requested page and every positive
  integer \<open>pageCount\<close>, and this is the page that a local \<open>toLimit\<close> with a numeric page
  size leaves when it returns. When \<open>pageCount\<close> is \<open>0\<close> or \<open>NaN\<close> the previous page is
  not kept as it is: \<open>toLimit\<close> clamps against the number of pages of its local pagination
  plan, \<open>pagination.length\<close>, and leaves \<open>min(max(1, previous), pagination.length)\<close> for
  \<open>NaN\<close> and \<open>min(1, pagination.length)\<close> for \<open>0\<close>; \<open>processPagination\<close> substitutes
  page \<open>1\<close>.
\<close>

theorem C3_clamp:
  assumes "createPaginationItems (totalLength totalRows rowLength)
             (limitCount (LimitNumber l) rowLength) = Inr pagination"
  shows "(1 \<le> pageCount \<longrightarrow>
            toLimit_currentPage (Fin requested) (Fin pageCount)
              = Fin (max 1 (min requested pageCount))
          \<and> processPagination_page (Fin requested) (Fin pageCount)
              = Fin (max 1 (min requested pageCount))
          \<and> toLimit_local (LimitNumber l) totalRows rowLength (Fin requested) (Fin pageCount)
              = Inr (Fin (max 1 (min requested pageCount))))
    \<and> toLimit_local (LimitNumber l) totalRows rowLength (Fin previous) NaN
         = Inr (Fin (min (max 1 previous) (int (length pagination))))
    \<and> toLimit_local (LimitNumber l) totalRows rowLength (Fin previous) (Fin 0)
         = Inr (Fin (min 1 (int (length pagination))))
    \<and> processPagination_page (Fin previous) NaN = Fin 1
    \<and> processPagination_page (Fin previous) (Fin 0) = Fin 1"
proof (intro conjI impI)
  note local = toLimit_local_page [OF assms]
  show "toLimit_local (LimitNumber l) totalRows rowLength (Fin previous) NaN
         = Inr (Fin (min (max 1 previous) (int (length pagination))))"
    by (simp add: local toLimit_first_page_def toLimit_currentPage_def)
  show "toLimit_local (LimitNumber l) totalRows rowLength (Fin previous) (Fin 0)
         = Inr (Fin (min 1 (int (length pagination))))"
    by (simp add: local toLimit_first_page_def toLimit_currentPage_def)
  show "processPagination_page (Fin previous) NaN = Fin 1"
    by (simp add: processPagination_page_def)
  show "processPagination_page (Fin previous) (Fin 0) = Fin 1"
    by (simp add: processPagination_page_def)
  assume pos: "1 \<le> pageCount"
  then show "toLimit_currentPage (Fin requested) (Fin pageCount)
              = Fin (max 1 (min requested pageCount))"
    by (auto simp: toLimit_currentPage_def)
  from pos show "processPagination_page (Fin requested) (Fin pageCount)
              = Fin (max 1 (min requested pageCount))"
    by (auto simp: processPagination_page_def)
  from pos show "toLimit_local (LimitNumber l) totalRows rowLength (Fin requested) (Fin pageCount)
              = Inr (Fin (max 1 (min requested pageCount)))"
    by (auto simp: local toLimit_first_page_def toLimit_currentPage_def)
qed

text \<open>
  C3 at concrete inputs: a table of \<open>30\<close> rows with \<open>total_rows = 25\<close> and the page size
  \<open>10\<close>, whose page count is \<open>Math.round(25 / 10) = 3\<close> and whose pagination plan has
  three pages; \<open>clampPage(5, 3) = 3\<close> and \<open>clampPage(0, 3) = 1\<close>.
\<close>

theorem C3_clamp_examples:
  "createPaginationItems (totalLength (Some (Fin 25)) 30) (limitCount (LimitNumber (Fin 10)) 30)
     = Inr [[0, 1, 2, 3, 4, 5, 6, 7, 8, 9], [10, 11, 12, 13, 14, 15, 16, 17, 18, 19],
            [20, 21, 22, 23, 24]]
   \<and> toLimit_local (LimitNumber (Fin 10)) (Some (Fin 25)) 30 (Fin 5) (Fin 3) = Inr (Fin 3)
   \<and> toLimit_local (LimitNumber (Fin 10)) (Some (Fin 25)) 30 (Fin 0) (Fin 3) = Inr (Fin 1)
   \<and> processPagination_page (Fin 5) (Fin 3) = Fin 3
   \<and> processPagination_page (Fin 0) (Fin 3) = Fin 1"
proof -
  have plan: "createPaginationItems (totalLength (Some (Fin 25)) 30)
       (limitCount (LimitNumber (Fin 10)) 30)
     = Inr [[0, 1, 2, 3, 4, 5, 6, 7, 8, 9], [10, 11, 12, 13, 14, 15, 16, 17, 18, 19],
            [20, 21, 22, 23, 24]]"
    by code_simp
  from C3_clamp [OF plan, of 3 5 0] C3_clamp [OF plan, of 3 0 0] plan
  show ?thesis by simp
qed

text \<open>
  C3 as stated fails for \<open>NaN\<close> and for \<open>0\<close>. On a table of \<open>30\<close> rows whose \<open>total_rows\<close>
  is undefined, with the page size \<open>10\<close> and the previous page \<open>7\<close>, \<open>pageCount\<close> is
  \<open>NaN\<close>; the first assignment keeps page \<open>7\<close>, and \<open>applyLimitation\<close> stores
  \<open>min(7, 3) = 3\<close>. On a table of \<open>3\<close> rows with \<open>total_rows = 3\<close>, the page size \<open>10\<close>
  and the previous page \<open>3\<close>, \<open>pageCount\<close> is \<open>Math.round(3 / 10) = 0\<close>; the first
  assignment stores page \<open>0\<close>, and \<open>applyLimitation\<close> stores \<open>1\<close>. \<open>processPagination\<close>
  returns page \<open>1\<close> in both cases. None of them keeps the previous page.
\<close>

theorem C3_previous_page_not_kept:
  "toLimit_local (LimitNumber (Fin 10)) None 30 (Fin 7) NaN = Inr (Fin 3)
   \<and> toLimit_first_page False (Fin 3) (Fin 0) = Fin 0
   \<and> toLimit_local (LimitNumber (Fin 10)) (Some (Fin 3)) 3 (Fin 3) (Fin 0) = Inr (Fin 1)
   \<and> processPagination_page (Fin 3) NaN = Fin 1
   \<and> processPagination_page (Fin 3) (Fin 0) = Fin 1"
  by code_simp

section \<open>Properties of the regular expressions\<close>

lemma backslash_syntax: "backslash \<in> set syntax_characters"
  by (simp add: syntax_characters_def)

lemma RegExp_source_literal:
  "c \<notin> set syntax_characters \<Longrightarrow> RegExp_source (c # rest) = map_option ((#) c) (RegExp_source rest)"
  using backslash_syntax by (cases rest) auto

lemma RegExp_source_escaped:
  "c \<in> set syntax_characters \<Longrightarrow>
   RegExp_source (backslash # c # rest) = map_option ((#) c) (RegExp_source rest)"
  by simp

lemma RegExp_source_escapeRegExp: "RegExp_source (escapeRegExp keyword) = Some keyword"
proof (induction keyword)
  case Nil
  then show ?case by (simp add: escapeRegExp_def)
next
  case (Cons c cs)
  have step: "escapeRegExp (c # cs) =
      (if c \<in> set syntax_characters then [backslash, c] else [c]) @ escapeRegExp cs"
    by (simp add: escapeRegExp_def)
  show ?case
  proof (cases "c \<in> set syntax_characters")
    case True
    with Cons step show ?thesis by (simp add: RegExp_source_escaped)
  next
    case False
    with Cons step show ?thesis by (simp add: RegExp_source_literal)
  qed
qed

lemma those_patterns_escaped: "those_patterns (map escapeRegExp vs) = Some vs"
  by (induction vs) (simp_all add: RegExp_source_escapeRegExp)

lemma searchPatterns_eq: "searchPatterns filters = Some (filter (\<lambda>v. v \<noteq> []) (map snd filters))"
  by (simp add: searchPatterns_def searchKeyword_def those_patterns_escaped)

lemma matches_here_iff:
  "matches_here pat s \<longleftrightarrow> (\<exists>post. map canonicalize s = map canonicalize pat @ post)"
proof
  assume m: "matches_here pat s"
  then have "map canonicalize s = map canonicalize (take (length pat) s) @ map canonicalize (drop (length pat) s)"
    by (metis append_take_drop_id map_append)
  with m show "\<exists>post. map canonicalize s = map canonicalize pat @ post"
    by (auto simp: matches_here_def)
next
  assume "\<exists>post. map canonicalize s = map canonicalize pat @ post"
  then obtain post where e: "map canonicalize s = map canonicalize pat @ post" by blast
  then have "length (map canonicalize s) = length (map canonicalize pat @ post)" by simp
  then have len: "length pat \<le> length s" by simp
  have "map canonicalize (take (length pat) s) = take (length pat) (map canonicalize s)"
    by (simp add: take_map)
  also have "\<dots> = map canonicalize pat" using e by simp
  finally show "matches_here pat s" using len by (simp add: matches_here_def)
qed

lemma first_match_Some_iff:
  "(\<exists>i. first_match pat s pos = Some i) \<longleftrightarrow> (\<exists>pre post. s = pre @ post \<and> matches_here pat post)"
proof (induction s arbitrary: pos)
  case Nil
  then show ?case by simp
next
  case (Cons c cs)
  show ?case
  proof (cases "matches_here pat (c # cs)")
    case True
    then have "\<exists>pre post. c # cs = pre @ post \<and> matches_here pat post"
      by (intro exI [of _ "[]"] exI [of _ "c # cs"]) simp
    with True show ?thesis by simp
  next
    case False
    have "(\<exists>pre post. c # cs = pre @ post \<and> matches_here pat post) \<longleftrightarrow>
          (\<exists>pre post. cs = pre @ post \<and> matches_here pat post)"
    proof
      assume "\<exists>pre post. c # cs = pre @ post \<and> matches_here pat post"
      then obtain pre post where pp: "c # cs = pre @ post" "matches_here pat post" by blast
      with False have "pre \<noteq> []" by auto
      then obtain pre' where "pre = c # pre'" using pp(1) by (cases pre) auto
      with pp show "\<exists>pre post. cs = pre @ post \<and> matches_here pat post" by auto
    next
      assume "\<exists>pre post. cs = pre @ post \<and> matches_here pat post"
      then obtain pre post where "cs = pre @ post" "matches_here pat post" by blast
      then have "c # cs = (c # pre) @ post \<and> matches_here pat post" by simp
      then show "\<exists>pre post. c # cs = pre @ post \<and> matches_here pat post" by blast
    qed
    with False Cons.IH [of "Suc pos"] show ?thesis by simp
  qed
qed

lemma RegExp_test_fresh: "fst (RegExp_test pat 0 s) \<longleftrightarrow> occurs_ci pat s"
proof -
  have "fst (RegExp_test pat 0 s) \<longleftrightarrow> (\<exists>i. first_match pat s 0 = Some i)"
    by (auto simp: RegExp_test_def split: option.splits)
  also have "\<dots> \<longleftrightarrow> (\<exists>pre post. s = pre @ post \<and> matches_here pat post)"
    by (rule first_match_Some_iff)
  also have "\<dots> \<longleftrightarrow> occurs_ci pat s"
  proof
    assume "\<exists>pre post. s = pre @ post \<and> matches_here pat post"
    then obtain pre post r where "s = pre @ post" "map canonicalize post = map canonicalize pat @ r"
      by (auto simp: matches_here_iff)
    then have "map canonicalize s = map canonicalize pre @ map canonicalize pat @ r" by simp
    then show "occurs_ci pat s" unfolding occurs_ci_def by blast
  next
    assume "occurs_ci pat s"
    then obtain a b where e: "map canonicalize s = a @ map canonicalize pat @ b"
      unfolding occurs_ci_def by blast
    then obtain us vs where uv: "s = us @ vs" "a = map canonicalize us"
        "map canonicalize pat @ b = map canonicalize vs"
      by (auto simp: map_eq_append_conv)
    from uv(3) have "map canonicalize vs = map canonicalize pat @ b" by simp
    then have "matches_here pat vs" unfolding matches_here_iff by blast
    with uv(1) show "\<exists>pre post. s = pre @ post \<and> matches_here pat post" by blast
  qed
  finally show ?thesis .
qed

lemma textContents_set:
  "set (textContents exIdx row) =
     {td_textContent (tr_children row ! i) | i.
        i < length (tr_children row) \<and> i \<notin> set exIdx \<and> td_visible (tr_children row ! i)}"
  by (force simp: textContents_def in_set_enumerate_eq image_iff)

section \<open>Properties of \<open>toFilter\<close>\<close>

lemma filter_isSearched_passes:
  "filter_isSearched (filter (\<lambda>v. v \<noteq> []) (map snd filters)) exIdx row
     \<longleftrightarrow> passes_filter exIdx filters row"
  unfolding filter_isSearched_def passes_filter_def list_all_iff list_ex_iff RegExp_test_fresh
    textContents_set
  by fastforce

lemma filter_isSearched_passes_fun:
  "filter_isSearched (filter (\<lambda>v. v \<noteq> []) (map snd filters)) exIdx = passes_filter exIdx filters"
  by (rule ext) (rule filter_isSearched_passes)

lemma filter_rows_map:
  "filter_rows pats exIdx searched rows =
     (map (\<lambda>row. filter_mark (filter_isSearched pats exIdx row \<or> isDummy row) row) rows,
      searched + length (filter (filter_isSearched pats exIdx) rows))"
  by (induction rows arbitrary: searched) (simp_all add: Let_def)

lemma filter_mark_classes:
  "classList_contains (tr_classList (filter_mark shown row)) CLASS_TR_VISIBLE = shown"
  "classList_contains (tr_classList (filter_mark shown row)) CLASS_TR_HIDDEN = (\<not> shown)"
  by (auto simp: filter_mark_def Let_def classList_contains_def classList_add_def
      classList_remove_def CLASS_TR_VISIBLE_def CLASS_TR_HIDDEN_def CLASS_TR_BASE_def)

text \<open>
  C7 (as the code has it). For every filter mapping and every list of rows, \<open>toFilter\<close>
  builds its regular expressions without an error, and a row passes, that is, it is counted
  in the result and marked \<open>VISIBLE\<close> and not \<open>HIDDEN\<close>, exactly when, for every entry whose
  value is not the empty string, at least one cell of the row that is neither in an excluded
  column nor hidden holds that value, letter case set aside: the value is matched as it is
  written, its metacharacters escaped, and not as a regular expression. A placeholder row is
  marked \<open>VISIBLE\<close> in any case and counted only when it passes. The scan goes over the whole
  row and never looks at the field name of the entry: two mappings with the same values in
  the same order give the same result.
\<close>

theorem C7_filter_and_of_ors:
  "toFilter_rows matches cols exclude filters rows =
     Inr (map (\<lambda>row. filter_mark
                 (passes_filter (excludeIndex matches cols exclude) filters row \<or> isDummy row) row)
            rows,
          length (filter (passes_filter (excludeIndex matches cols exclude) filters) rows))
   \<and> (\<forall>row \<in> set rows.
         (classList_contains
            (tr_classList
               (filter_mark
                  (passes_filter (excludeIndex matches cols exclude) filters row \<or> isDummy row) row))
            CLASS_TR_VISIBLE
          \<longleftrightarrow> passes_filter (excludeIndex matches cols exclude) filters row \<or> isDummy row)
       \<and> (classList_contains
            (tr_classList
               (filter_mark
                  (passes_filter (excludeIndex matches cols exclude) filters row \<or> isDummy row) row))
            CLASS_TR_HIDDEN
          \<longleftrightarrow> \<not> (passes_filter (excludeIndex matches cols exclude) filters row \<or> isDummy row)))
   \<and> (map snd filters' = map snd filters \<longrightarrow>
        toFilter_rows matches cols exclude filters' rows
          = toFilter_rows matches cols exclude filters rows)"
proof (intro conjI ballI impI)
  show "toFilter_rows matches cols exclude filters rows =
     Inr (map (\<lambda>row. filter_mark
                 (passes_filter (excludeIndex matches cols exclude) filters row \<or> isDummy row) row)
            rows,
          length (filter (passes_filter (excludeIndex matches cols exclude) filters) rows))"
    by (simp add: toFilter_rows_def searchPatterns_eq filter_rows_map filter_isSearched_passes_fun)
  assume "map snd filters' = map snd filters"
  then show "toFilter_rows matches cols exclude filters' rows
          = toFilter_rows matches cols exclude filters rows"
    by (simp add: toFilter_rows_def searchPatterns_eq)
qed (simp_all add: filter_mark_classes)

text \<open>
  C7 at a concrete input: the filter \<open>{status: "active", name: ""}\<close> on the rows
  \<open>["Bob", "ACTIVE user"]\<close>, which passes, and \<open>["Eve", "retired"]\<close>, which does not.
\<close>

theorem C7_filter_witness:
  "toFilter_rows (\<lambda>h s. False) [] [] [(''status'', ''active''), (''name'', '''')]
     [\<lparr>tr_index = Fin 0, tr_classList = [],
       tr_children = [\<lparr>td_textContent = ''Bob'', td_colSpan = 1, td_visible = True\<rparr>,
                      \<lparr>td_textContent = ''ACTIVE user'', td_colSpan = 1, td_visible = True\<rparr>]\<rparr>,
      \<lparr>tr_index = Fin 1, tr_classList = [],
       tr_children = [\<lparr>td_textContent = ''Eve'', td_colSpan = 1, td_visible = True\<rparr>,
                      \<lparr>td_textContent = ''retired'', td_colSpan = 1, td_visible = True\<rparr>]\<rparr>]
   = Inr ([\<lparr>tr_index = Fin 0, tr_classList = [CLASS_TR_BASE, CLASS_TR_VISIBLE],
            tr_children = [\<lparr>td_textContent = ''Bob'', td_colSpan = 1, td_visible = True\<rparr>,
                           \<lparr>td_textContent = ''ACTIVE user'', td_colSpan = 1, td_visible = True\<rparr>]\<rparr>,
           \<lparr>tr_index = Fin 1, tr_classList = [CLASS_TR_BASE, CLASS_TR_HIDDEN],
            tr_children = [\<lparr>td_textContent = ''Eve'', td_colSpan = 1, td_visible = True\<rparr>,
                           \<lparr>td_textContent = ''retired'', td_colSpan = 1, td_visible = True\<rparr>]\<rparr>],
          1)
   \<and> length (filter (passes_filter [] [(''status'', ''active''), (''name'', '''')])
       [\<lparr>tr_index = Fin 0, tr_classList = [],
         tr_children = [\<lparr>td_textContent = ''Bob'', td_colSpan = 1, td_visible = True\<rparr>,
                        \<lparr>td_textContent = ''ACTIVE user'', td_colSpan = 1, td_visible = True\<rparr>]\<rparr>,
        \<lparr>tr_index = Fin 1, tr_classList = [],
         tr_children = [\<lparr>td_textContent = ''Eve'', td_colSpan = 1, td_visible = True\<rparr>,
                        \<lparr>td_textContent = ''retired'', td_colSpan = 1, td_visible = True\<rparr>]\<rparr>]) = 1"
proof -
  let ?rows = "[\<lparr>tr_index = Fin 0, tr_classList = [],
       tr_children = [\<lparr>td_textContent = ''Bob'', td_colSpan = 1, td_visible = True\<rparr>,
                      \<lparr>td_textContent = ''ACTIVE user'', td_colSpan = 1, td_visible = True\<rparr>]\<rparr>,
      \<lparr>tr_index = Fin 1, tr_classList = [],
       tr_children = [\<lparr>td_textContent = ''Eve'', td_colSpan = 1, td_visible = True\<rparr>,
                      \<lparr>td_textContent = ''retired'', td_colSpan = 1, td_visible = True\<rparr>]\<rparr>]"
  let ?fs = "[(''status'', ''active''), (''name'', '''')]"
  have ex: "excludeIndex (\<lambda>h s. False) [] [] = []"
    by (simp add: excludeIndex_def)
  have ev: "toFilter_rows (\<lambda>h s. False) [] [] ?fs ?rows
   = Inr ([\<lparr>tr_index = Fin 0, tr_classList = [CLASS_TR_BASE, CLASS_TR_VISIBLE],
            tr_children = [\<lparr>td_textContent = ''Bob'', td_colSpan = 1, td_visible = True\<rparr>,
                           \<lparr>td_textContent = ''ACTIVE user'', td_colSpan = 1, td_visible = True\<rparr>]\<rparr>,
           \<lparr>tr_index = Fin 1, tr_classList = [CLASS_TR_BASE, CLASS_TR_HIDDEN],
            tr_children = [\<lparr>td_textContent = ''Eve'', td_colSpan = 1, td_visible = True\<rparr>,
                           \<lparr>td_textContent = ''retired'', td_colSpan = 1, td_visible = True\<rparr>]\<rparr>],
          1)"
    by code_simp
  from C7_filter_and_of_ors [of "\<lambda>h s. False" "[]" "[]" ?fs ?rows ?fs]
  have "toFilter_rows (\<lambda>h s. False) [] [] ?fs ?rows =
     Inr (map (\<lambda>row. filter_mark (passes_filter [] ?fs row \<or> isDummy row) row) ?rows,
          length (filter (passes_filter [] ?fs) ?rows))"
    unfolding ex by blast
  with ev have "length (filter (passes_filter [] ?fs) ?rows) = 1"
    by simp
  with ev show ?thesis by simp
qed

text \<open>
  C7 as stated fails in two ways. A row whose only cell \<open>active\<close> is in a column that is
  not excluded, but hidden, has a non-excluded cell that matches the value \<open>active\<close>, and
  does not pass: it is not counted and is marked \<open>HIDDEN\<close>. And the value \<open>a.c\<close>, which as a
  regular expression matches the text \<open>abc\<close>, is matched as the three characters \<open>a.c\<close>:
  the row with the cell \<open>abc\<close> does not pass, the row with the cell \<open>xA.Cx\<close> does.
\<close>

theorem C7_hidden_cell_and_literal_value:
  "toFilter_rows (\<lambda>h s. False) [\<lparr>th_cellIndex = 0, th_classList = []\<rparr>] []
      [(''status'', ''active'')]
      [\<lparr>tr_index = Fin 0, tr_classList = [],
        tr_children = [\<lparr>td_textContent = ''active'', td_colSpan = 1, td_visible = False\<rparr>]\<rparr>]
   = Inr ([\<lparr>tr_index = Fin 0, tr_classList = [CLASS_TR_BASE, CLASS_TR_HIDDEN],
            tr_children = [\<lparr>td_textContent = ''active'', td_colSpan = 1, td_visible = False\<rparr>]\<rparr>],
          0)
   \<and> excludeIndex (\<lambda>h s. False) [\<lparr>th_cellIndex = 0, th_classList = []\<rparr>] [] = []
   \<and> fst (RegExp_test ''active'' 0 ''active'')
   \<and> toFilter_rows (\<lambda>h s. False) [\<lparr>th_cellIndex = 0, th_classList = []\<rparr>] []
      [(''name'', ''a.c'')]
      [\<lparr>tr_index = Fin 0, tr_classList = [],
        tr_children = [\<lparr>td_textContent = ''abc'', td_colSpan = 1, td_visible = True\<rparr>]\<rparr>,
       \<lparr>tr_index = Fin 1, tr_classList = [],
        tr_children = [\<lparr>td_textContent = ''xA.Cx'', td_colSpan = 1, td_visible = True\<rparr>]\<rparr>]
   = Inr ([\<lparr>tr_index = Fin 0, tr_classList = [CLASS_TR_BASE, CLASS_TR_HIDDEN],
            tr_children = [\<lparr>td_textContent = ''abc'', td_colSpan = 1, td_visible = True\<rparr>]\<rparr>,
           \<lparr>tr_index = Fin 1, tr_classList = [CLASS_TR_BASE, CLASS_TR_VISIBLE],
            tr_children = [\<lparr>td_textContent = ''xA.Cx'', td_colSpan = 1, td_visible = True\<rparr>]\<rparr>],
          1)"
  by code_simp

section \<open>Properties of \<open>toSearch\<close>, local target\<close>

lemma toNumber_int: "toNumber (Fin v) (Fin 0) = Fin v"
  by simp






lemma length_search_rows: "length (fst (search_rows exIdx pat acc rows)) = length rows"
  by (induction rows arbitrary: acc) (simp_all add: Let_def)




text \<open>
  C4. A row is meant to be matched exactly when the keyword occurs in its text, so that
  two rows with the same text get the same verdict. \<open>toSearch\<close> tests every row with one
  regular expression that has the flag \<open>g\<close>, and \<open>test\<close> resumes at the \<open>lastIndex\<close> the
  row before left behind (\<open>toFilter\<close> takes a fresh \<open>new RegExp(pattern)\<close> for every
  test). In the search for \<open>an\<close> over two rows with the text \<open>an\<close>, the first row is
  matched and the second is hidden: one match is counted.
\<close>

theorem C4_identical_rows_differ:
  "map_sum id
     (\<lambda>out. (out_result out,
              map (\<lambda>row. classList_contains (tr_classList row) CLASS_TR_HIDDEN) (out_tbody out)))
     (toSearch_local (\<lambda>h s. False) [] [] ''an''
        [\<lparr>tr_index = Fin 0, tr_classList = [],
          tr_children = [\<lparr>td_textContent = ''an'', td_colSpan = 1, td_visible = True\<rparr>]\<rparr>,
         \<lparr>tr_index = Fin 1, tr_classList = [],
          tr_children = [\<lparr>td_textContent = ''an'', td_colSpan = 1, td_visible = True\<rparr>]\<rparr>])
   = Inr (1, [False, True])"
  by code_simp

section \<open>Properties of the table properties\<close>



lemma properties_set_equal: "strict_equals (target st p) v \<Longrightarrow> properties_set st p v = (st, None)"
  by (simp add: properties_set_def)

lemma properties_set_changed:
  "\<not> strict_equals (target st p) v \<Longrightarrow>
   properties_set st p v =
     (st\<lparr>target := (target st)(p := v), listened := listened st @ [(p, v)],
         paginate := fst (propertiesListener (paginate st) p)\<rparr>,
      snd (propertiesListener (paginate st) p))"
  by (simp add: properties_set_def Let_def)

text \<open>
  C6 (as the code has it). For every property and value, an assignment through
  \<open>table.properties\<close> is a no-op (no mutation, no call of the listener, no error) whenever
  the value is strictly equal (\<open>===\<close>) to the current value of the property; otherwise
  it commits the new value and then calls \<open>propertiesListener\<close>, the one subscriber,
  exactly once with the property and the value, before the assignment returns.
\<close>

theorem C6_set_strict_identity:
  "(strict_equals (target st p) v \<longrightarrow> properties_set st p v = (st, None))
   \<and> (\<not> strict_equals (target st p) v \<longrightarrow>
        target (fst (properties_set st p v)) = (target st)(p := v)
        \<and> listened (fst (properties_set st p v)) = listened st @ [(p, v)])"
  by (simp add: properties_set_equal properties_set_changed)

text \<open>
  C6 at concrete inputs: writing the current page \<open>1\<close> again changes nothing; writing
  page \<open>2\<close> stores it and calls the listener once with \<open>("page", 2)\<close>.
\<close>

theorem C6_set_witness:
  "properties_set
     \<lparr>target = (\<lambda>k. VUndefined)(''page'' := VNum (Fin 1)), paginate = Some [], listened = []\<rparr>
     ''page'' (VNum (Fin 1))
   = (\<lparr>target = (\<lambda>k. VUndefined)(''page'' := VNum (Fin 1)), paginate = Some [], listened = []\<rparr>,
      None)
   \<and> listened (fst (properties_set
        \<lparr>target = (\<lambda>k. VUndefined)(''page'' := VNum (Fin 1)), paginate = Some [], listened = []\<rparr>
        ''page'' (VNum (Fin 2))))
     = [(''page'', VNum (Fin 2))]
   \<and> target (fst (properties_set
        \<lparr>target = (\<lambda>k. VUndefined)(''page'' := VNum (Fin 1)), paginate = Some [], listened = []\<rparr>
        ''page'' (VNum (Fin 2)))) ''page''
     = VNum (Fin 2)"
  using
    C6_set_strict_identity [of
      "\<lparr>target = (\<lambda>k. VUndefined)(''page'' := VNum (Fin 1)), paginate = Some [], listened = []\<rparr>"
      "''page''" "VNum (Fin 1)"]
    C6_set_strict_identity [of
      "\<lparr>target = (\<lambda>k. VUndefined)(''page'' := VNum (Fin 1)), paginate = Some [], listened = []\<rparr>"
      "''page''" "VNum (Fin 2)"]
  by simp

text \<open>
  C6 as stated fails on shallow equality: the current \<open>filters\<close> is an empty object,
  the new value is another empty object, shallow-equal to it; the assignment stores the
  new object and calls the listener.
\<close>

theorem C6_shallow_equal_object_notifies:
  "shallow_equal_spec (VObj 0 []) (VObj 1 [])
   \<and> properties_set
       \<lparr>target = (\<lambda>k. VUndefined)(''filters'' := VObj 0 []), paginate = Some [], listened = []\<rparr>
       ''filters'' (VObj 1 [])
     = (\<lparr>target = (\<lambda>k. VUndefined)(''filters'' := VObj 1 []), paginate = Some [],
         listened = [(''filters'', VObj 1 [])]\<rparr>,
        None)"
  by (simp add: properties_set_def propertiesListener_def Let_def)

section \<open>Properties of \<open>toSearch\<close>\<close>












section \<open>Properties of the responses\<close>

lemma length_remove_nth: "k < length xs \<Longrightarrow> length (remove_nth k xs) = length xs - 1"
  by (simp add: remove_nth_def)

lemma fetch_resolved_applied:
  "k < length (pending inst) \<Longrightarrow>
   tbody (fetch_resolved k data inst) = (if data = [] then tbody inst else render_rows data)
   \<and> thead (fetch_resolved k data inst) = (if data = [] then thead inst else render_header data)
   \<and> pending (fetch_resolved k data inst) = remove_nth k (pending inst)"
  by (cases data) (simp_all add: fetch_resolved_def toRender_def)

text \<open>
  C1 (as the code has it). A request carries no sequence number and no response is
  discarded for its place in the order of the dispatches: every response to a request in
  flight is handed to \<open>toRender\<close> when it arrives, which puts the rows of a non-empty
  response in the place of the rows of the table and leaves the table as it is on an empty
  response. So for two requests in flight whose responses arrive one after the other, the
  table shows in the end the rows of the response that arrived last when this response is
  not empty, and otherwise what the response that arrived first left, whichever of the two
  requests was dispatched later.
\<close>

theorem C1_last_resolved_wins:
  assumes "k < length (pending inst)" and "j < length (pending inst) - 1"
  shows "tbody (fetch_resolved k first inst) = (if first = [] then tbody inst else render_rows first)
     \<and> tbody (fetch_resolved j second (fetch_resolved k first inst))
         = (if second \<noteq> [] then render_rows second
            else if first \<noteq> [] then render_rows first
            else tbody inst)"
proof -
  from assms(1)
  have a: "tbody (fetch_resolved k first inst) = (if first = [] then tbody inst else render_rows first)"
    and p: "pending (fetch_resolved k first inst) = remove_nth k (pending inst)"
    by (simp_all add: fetch_resolved_applied)
  from assms(1,2) p have "j < length (pending (fetch_resolved k first inst))"
    by (simp add: length_remove_nth)
  then have "tbody (fetch_resolved j second (fetch_resolved k first inst))
      = (if second = [] then tbody (fetch_resolved k first inst) else render_rows second)"
    by (simp add: fetch_resolved_applied)
  with a show ?thesis by simp
qed

text \<open>
  C1 at a concrete input: two requests in flight, the response to the second arrives
  first, the response to the first arrives last and stays; and an empty response that
  arrives last leaves the rows of the response before it.
\<close>

theorem C1_last_resolved_witness:
  "tbody
     (fetch_resolved 0 [[(''name'', ''rows for a'')]]
        (fetch_resolved 1 [[(''name'', ''rows for b'')]]
           \<lparr>target = (\<lambda>k. VUndefined), paginate = None, listened = [], thead = [], tbody = [],
            instance_api = None,
            pending = [\<lparr>req_url = ''/rows'', req_data = Some [(''search'', VStr ''a'')]\<rparr>,
                       \<lparr>req_url = ''/rows'', req_data = Some [(''search'', VStr ''b'')]\<rparr>]\<rparr>))
   = render_rows [[(''name'', ''rows for a'')]]
   \<and> tbody
     (fetch_resolved 0 []
        (fetch_resolved 1 [[(''name'', ''rows for b'')]]
           \<lparr>target = (\<lambda>k. VUndefined), paginate = None, listened = [], thead = [], tbody = [],
            instance_api = None,
            pending = [\<lparr>req_url = ''/rows'', req_data = Some [(''search'', VStr ''a'')]\<rparr>,
                       \<lparr>req_url = ''/rows'', req_data = Some [(''search'', VStr ''b'')]\<rparr>]\<rparr>))
   = render_rows [[(''name'', ''rows for b'')]]"
  using C1_last_resolved_wins [of 1
      "\<lparr>target = (\<lambda>k. VUndefined), paginate = None, listened = [], thead = [], tbody = [],
            instance_api = None,
            pending = [\<lparr>req_url = ''/rows'', req_data = Some [(''search'', VStr ''a'')]\<rparr>,
                       \<lparr>req_url = ''/rows'', req_data = Some [(''search'', VStr ''b'')]\<rparr>]\<rparr>"
      0 "[[(''name'', ''rows for b'')]]" "[[(''name'', ''rows for a'')]]"]
    C1_last_resolved_wins [of 1
      "\<lparr>target = (\<lambda>k. VUndefined), paginate = None, listened = [], thead = [], tbody = [],
            instance_api = None,
            pending = [\<lparr>req_url = ''/rows'', req_data = Some [(''search'', VStr ''a'')]\<rparr>,
                       \<lparr>req_url = ''/rows'', req_data = Some [(''search'', VStr ''b'')]\<rparr>]\<rparr>"
      0 "[[(''name'', ''rows for b'')]]" "[]"]
  by simp

text \<open>
  C1 as stated fails: the remote searches for \<open>a\<close> and for \<open>b\<close> are dispatched in this
  order, the response for \<open>b\<close> resolves first and the response for \<open>a\<close> last. The
  response of the search dispatched first is applied, and it is what the table shows in
  the end.
\<close>

theorem C1_first_dispatched_applied_last:
  "map (\<lambda>row. map td_textContent (tr_children row))
     (tbody
        (run (\<lambda>h s. False)
           [Search ''a'', Search ''b'',
            Resolved 1 [[(''name'', ''rows for b'')]],
            Resolved 0 [[(''name'', ''rows for a'')]]]
           \<lparr>target = (\<lambda>k. VUndefined),
            paginate = Some [(''api'', [(''search'', [''b'']), (''filter'', [''''])])],
            listened = [], thead = [], tbody = [],
            instance_api = Some \<lparr>api_url = ''/rows'', api_init = False, api_data = None\<rparr>,
            pending = []\<rparr>))
   = [[''rows for a'']]
   \<and> map req_data
       (pending
          (run (\<lambda>h s. False) [Search ''a'', Search ''b'']
             \<lparr>target = (\<lambda>k. VUndefined),
              paginate = Some [(''api'', [(''search'', [''b'']), (''filter'', [''''])])],
              listened = [], thead = [], tbody = [],
              instance_api = Some \<lparr>api_url = ''/rows'', api_init = False, api_data = None\<rparr>,
              pending = []\<rparr>))
     = [Some [(''search'', VStr ''a'')], Some [(''search'', VStr ''b'')]]"
  by (simp add: toSearch_def toSearch_properties_def properties_set_def propertiesListener_def
      collected_def reset_values_def Let_def toSearch_api_def toSearch_api_data_def
      toInitialize_def object_put_def object_delete_def fetch_resolved_def toRender_def
      remove_nth_def render_rows_def render_row_def render_cell_def render_header_def
      DEFAULT_LIMIT_def DEFAULT_PAGE_def DEFAULT_SEARCH_def)

section \<open>Properties of the sort click\<close>

lemma consistent_pair:
  assumes "cmp_zero (cmp a a)" and "cmp_zero (cmp b b)"
    and "cmp_positive (cmp a b) \<and> cmp_negative (cmp b a)
         \<or> cmp_negative (cmp a b) \<and> cmp_positive (cmp b a)"
  shows "consistent_comparator cmp (set [a, b])"
proof -
  have excl: "\<not> (cmp_positive v \<and> cmp_zero v) \<and> \<not> (cmp_positive v \<and> cmp_negative v)
      \<and> \<not> (cmp_zero v \<and> cmp_negative v)" for v
    by (cases v) auto
  from assms excl [of "cmp a a"] excl [of "cmp b b"] excl [of "cmp a b"] excl [of "cmp b a"]
  show ?thesis
    unfolding consistent_comparator_def by auto
qed

text \<open>One run of the listener on a \<open>DESCENDING\<close> column, when the rows of its array
  are the rows of the body and every row has its position as \<open>index\<close>: the rows are back in
  the ingestion order and the marker is removed.\<close>

lemma reappend_all:
  "distinct rows \<Longrightarrow> distinct body \<Longrightarrow> set rows \<subseteq> set body \<Longrightarrow>
   reappend rows body = (filter (\<lambda>i. i \<notin> set rows) body @ rows, True)"
proof (induction rows arbitrary: body)
  case Nil
  then show ?case by simp
next
  case (Cons r rs)
  let ?body = "remove1 r body @ [r]"
  from Cons.prems have r: "r \<in> set body" "r \<notin> set rs" by auto
  from Cons.prems have d: "distinct ?body" by auto
  from Cons.prems r have sub: "set rs \<subseteq> set ?body" by auto
  from Cons.prems have "distinct rs" by simp
  from Cons.IH [OF this d sub]
  have "reappend rs ?body = (filter (\<lambda>i. i \<notin> set rs) ?body @ rs, True)" .
  moreover have "filter (\<lambda>i. i \<notin> set rs) ?body = filter (\<lambda>i. i \<notin> set (r # rs)) body @ [r]"
    using Cons.prems(2) r
    by (auto simp: distinct_remove1_removeAll removeAll_filter_not_eq intro: filter_cong)
  ultimately show ?case using r by simp
qed

lemma consistent_key:
  "\<forall>a \<in> S. \<forall>b \<in> S. cmp a b = Fin (f a - f b) \<Longrightarrow> consistent_comparator cmp S"
  unfolding consistent_comparator_def by auto

lemma sort_insert_key:
  "\<forall>b \<in> set ys. cmp x b = Fin (f x - f b) \<Longrightarrow> sort_insert cmp x ys = insort_key f x ys"
  by (induction ys) auto

lemma stable_sort_key:
  "\<forall>a \<in> set xs. \<forall>b \<in> set xs. cmp a b = Fin (f a - f b) \<Longrightarrow>
   stable_sort cmp xs = sort_key f xs"
proof (induction xs)
  case Nil
  then show ?case by (simp add: stable_sort_def)
next
  case (Cons x xs)
  then have ih: "stable_sort cmp xs = sort_key f xs" by simp
  have "stable_sort cmp (x # xs) = sort_insert cmp x (stable_sort cmp xs)"
    by (simp add: stable_sort_def)
  also have "\<dots> = insort_key f x (stable_sort cmp xs)"
    using Cons.prems by (intro sort_insert_key) (simp add: set_stable_sort)
  finally show ?case using ih by (simp add: sort_key_def)
qed

lemma listener_run_descending_resets:
  assumes "conforming_sort srt"
    and "classList_contains (th_classList (st_ths st ! k)) CLASS_SORT_DESCENDING"
    and "mset (sl_rows (st_listeners st ! n)) = mset (st_tbody st)"
    and "distinct (st_tbody st)"
    and "\<forall>i \<in> set (st_tbody st). tr_index (st_rows st ! i) = Fin (int i)"
  shows "st_tbody (listener_run srt lc n k st) = sort (st_tbody st)"
    and "st_ths (listener_run srt lc n k st)
           = (st_ths st)[k := th_remove CLASS_SORT_DESCENDING (st_ths st ! k)]"
proof -
  let ?rows = "sl_rows (st_listeners st ! n)"
  let ?cmp = "\<lambda>a b. index_cmp (st_rows st ! a) (st_rows st ! b)"
  let ?sorted = "srt ?cmp ?rows"
  from assms(3) have set_rows: "set ?rows = set (st_tbody st)" by (rule mset_eq_setD)
  from assms(3,4) have dist_rows: "distinct ?rows" by (metis mset_eq_imp_distinct_iff)
  have key: "\<forall>a \<in> set ?rows. \<forall>b \<in> set ?rows. ?cmp a b = Fin (int a - int b)"
    using assms(5) set_rows by (simp add: index_cmp_def)
  have "?sorted = stable_sort ?cmp ?rows"
    by (rule conforming_consistent [OF assms(1) consistent_key [OF key]])
  also have "\<dots> = sort_key int ?rows"
    by (rule stable_sort_key [OF key])
  also have "\<dots> = sort (st_tbody st)"
  proof (rule sort_key_inj_key_eq)
    show "mset ?rows = mset (sort (st_tbody st))" using assms(3) by simp
    show "inj_on int (set ?rows)" by simp
    show "sorted (map int (sort (st_tbody st)))"
      by (simp add: sorted_map)
  qed
  finally have sorted: "?sorted = sort (st_tbody st)" .
  have "reappend ?sorted (st_tbody st)
      = (filter (\<lambda>i. i \<notin> set ?sorted) (st_tbody st) @ ?sorted, True)"
    using assms(4) by (intro reappend_all) (simp_all add: sorted)
  then have moved: "reappend ?sorted (st_tbody st) = (sort (st_tbody st), True)"
    by (simp add: sorted)
  show "st_tbody (listener_run srt lc n k st) = sort (st_tbody st)"
    using assms(2) by (simp add: listener_run_def Let_def moved)
  show "st_ths (listener_run srt lc n k st)
           = (st_ths st)[k := th_remove CLASS_SORT_DESCENDING (st_ths st ! k)]"
    using assms(2) by (simp add: listener_run_def Let_def moved)
qed

lemma click_one_listener:
  assumes "k < length (st_ths st)" and "length (st_listeners st) = 1"
    and "k \<in> set (sl_ths (st_listeners st ! 0))"
  shows "click srt lc k st = listener_run srt lc 0 k st"
  using assms by (simp add: click_def)

text \<open>
  C5 (where the code departs from it). The table is in the page: one header cell, not
  sorted, and two rows with the cells \<open>b\<close> and \<open>a\<close>, to which the constructor has given
  the \<open>index\<close> \<open>0\<close> and \<open>1\<close> and their classes; the collation orders \<open>a\<close> before \<open>b\<close>.
  \<open>toInitialize\<close> leaves two listeners on the header cell. The first click runs both: the column is sorted
  descending and marked \<open>DESCENDING\<close>. The click on this \<open>DESCENDING\<close> column runs both
  again: the first listener restores the ingestion order and removes the marker, the second
  one then finds no marker, sorts ascending and marks the column \<open>ASCENDING\<close>. The rows
  end in the order \<open>a\<close>, \<open>b\<close>, not in the ingestion order \<open>b\<close>, \<open>a\<close>, and the marker is
  not cleared.
\<close>

theorem C5_static_table_descending_click:
  assumes "conforming_sort srt"
    and "lc ''a'' ''a'' = Fin 0" and "lc ''b'' ''b'' = Fin 0"
    and "lc ''a'' ''b'' = Fin (- 1)" and "lc ''b'' ''a'' = Fin 1"
  shows
    "(let table =
            toInitialize_sort matches True True []
              (static_table [\<lparr>th_cellIndex = 0, th_classList = [CLASS_TH_BASE]\<rparr>]
                 [\<lparr>tr_index = Fin 0, tr_classList = [CLASS_TR_BASE, CLASS_TR_VISIBLE],
                   tr_children = [\<lparr>td_textContent = ''b'', td_colSpan = 1, td_visible = True\<rparr>]\<rparr>,
                  \<lparr>tr_index = Fin 1, tr_classList = [CLASS_TR_BASE, CLASS_TR_VISIBLE],
                   tr_children = [\<lparr>td_textContent = ''a'', td_colSpan = 1, td_visible = True\<rparr>]\<rparr>]);
          descending = click srt lc 0 table;
          after = click srt lc 0 descending
      in length (st_listeners table) = 2
       \<and> st_tbody table = [0, 1]
       \<and> map th_classList (st_ths table) = [[CLASS_TH_BASE, CLASS_SORT_ENABLED]]
       \<and> st_tbody descending = [0, 1]
       \<and> map th_classList (st_ths descending)
           = [[CLASS_TH_BASE, CLASS_SORT_ENABLED, CLASS_SORT_DESCENDING]]
       \<and> st_tbody after = [1, 0]
       \<and> map th_classList (st_ths after)
           = [[CLASS_TH_BASE, CLASS_SORT_ENABLED, CLASS_SORT_ASCENDING]])"
proof -
  define rows where "rows =
    [\<lparr>tr_index = Fin 0, tr_classList = [CLASS_TR_BASE, CLASS_TR_VISIBLE],
      tr_children = [\<lparr>td_textContent = ''b'', td_colSpan = 1, td_visible = True\<rparr>]\<rparr>,
     \<lparr>tr_index = Fin 1, tr_classList = [CLASS_TR_BASE, CLASS_TR_VISIBLE],
      tr_children = [\<lparr>td_textContent = ''a'', td_colSpan = 1, td_visible = True\<rparr>]\<rparr>]"
  define col where "col c = (\<lambda>x y. column_cmp lc c 0 (rows ! x) (rows ! y))" for c
  define idx where "idx = (\<lambda>x y. index_cmp (rows ! x) (rows ! y))"
  define table where "table cl body l0 l1 =
    \<lparr>st_ths = [\<lparr>th_cellIndex = 0, th_classList = CLASS_TH_BASE # CLASS_SORT_ENABLED # cl\<rparr>],
     st_rows = rows, st_tbody = body,
     st_listeners = [\<lparr>sl_ascending = True, sl_rows = l0, sl_ths = [0]\<rparr>,
                     \<lparr>sl_ascending = True, sl_rows = l1, sl_ths = [0]\<rparr>]\<rparr>" for cl body l0 l1
  have trim: "trim ''a'' = ''a''" "trim ''b'' = ''b''"
    by (simp_all add: trim_def is_space_def)
  have col: "col True 0 0 = Fin 0" "col True (Suc 0) (Suc 0) = Fin 0"
    "col True 0 (Suc 0) = Fin 1" "col True (Suc 0) 0 = Fin (- 1)"
    "col False 0 0 = Fin 0" "col False (Suc 0) (Suc 0) = Fin 0"
    "col False 0 (Suc 0) = Fin (- 1)" "col False (Suc 0) 0 = Fin 1"
    using assms(2-5) by (simp_all add: col_def rows_def column_cmp_def cell_value_def trim Let_def)
  have idx: "idx 0 0 = Fin 0" "idx (Suc 0) (Suc 0) = Fin 0"
    "idx 0 (Suc 0) = Fin (- 1)" "idx (Suc 0) 0 = Fin 1"
    by (simp_all add: idx_def rows_def index_cmp_def)
  have "consistent_comparator (col True) (set [0, Suc 0])"
    by (rule consistent_pair) (simp_all add: col)
  from conforming_consistent [OF assms(1) this]
  have s1: "srt (col True) [0, Suc 0] = [Suc 0, 0]"
    by (simp add: stable_sort_def col)
  have "consistent_comparator (col False) (set [0, Suc 0])"
    by (rule consistent_pair) (simp_all add: col)
  from conforming_consistent [OF assms(1) this]
  have s2: "srt (col False) [0, Suc 0] = [0, Suc 0]"
    by (simp add: stable_sort_def col)
  have "consistent_comparator idx (set [Suc 0, 0])"
    by (rule consistent_pair) (simp_all add: idx)
  from conforming_consistent [OF assms(1) this]
  have s3: "srt idx [Suc 0, 0] = [0, Suc 0]"
    by (simp add: stable_sort_def idx)
  note classes = classList_add_def classList_remove_def classList_contains_def
    CLASS_TR_NO_DATA_def CLASS_TR_BASE_def CLASS_TR_VISIBLE_def CLASS_TH_BASE_def
    CLASS_SORT_ENABLED_def
    CLASS_SORT_DISABLED_def CLASS_SORT_ASCENDING_def CLASS_SORT_DESCENDING_def
  have wired: "toInitialize_sort matches True True []
      (static_table [\<lparr>th_cellIndex = 0, th_classList = [CLASS_TH_BASE]\<rparr>]
         [\<lparr>tr_index = Fin 0, tr_classList = [CLASS_TR_BASE, CLASS_TR_VISIBLE],
           tr_children = [\<lparr>td_textContent = ''b'', td_colSpan = 1, td_visible = True\<rparr>]\<rparr>,
          \<lparr>tr_index = Fin 1, tr_classList = [CLASS_TR_BASE, CLASS_TR_VISIBLE],
           tr_children = [\<lparr>td_textContent = ''a'', td_colSpan = 1, td_visible = True\<rparr>]\<rparr>])
      = table [] [0, Suc 0] [0, Suc 0] [0, Suc 0]"
    by (simp add: toInitialize_sort_def static_table_def toSort_def toSort_th_def
        toSort_listens_def th_add_def th_remove_def classes Let_def enumerate_eq_zip upt_rec
        table_def rows_def)
  have first: "click srt lc 0 (table [] [0, Suc 0] [0, Suc 0] [0, Suc 0])
      = table [CLASS_SORT_DESCENDING] [0, Suc 0] [Suc 0, 0] [0, Suc 0]"
    by (simp add: click_def listener_run_def table_def upt_rec Let_def th_add_def th_remove_def
        classes col_def [symmetric] idx_def [symmetric] s1 s2 s3)
  have second: "click srt lc 0 (table [CLASS_SORT_DESCENDING] [0, Suc 0] [Suc 0, 0] [0, Suc 0])
      = table [CLASS_SORT_ASCENDING] [Suc 0, 0] [0, Suc 0] [Suc 0, 0]"
    by (simp add: click_def listener_run_def table_def upt_rec Let_def th_add_def th_remove_def
        classes col_def [symmetric] idx_def [symmetric] s1 s2 s3)
  show ?thesis
    unfolding wired Let_def first second
    by (simp add: table_def classes)
qed

text \<open>
  The statement at the stable sort and a collation that orders \<open>a\<close> before \<open>b\<close>.
\<close>

theorem C5_static_table_witness:
  "conforming_sort (stable_sort :: (nat \<Rightarrow> nat \<Rightarrow> jsnum) \<Rightarrow> nat list \<Rightarrow> nat list)
   \<and> (let lc = (\<lambda>a b. if a = b then Fin 0 else if a = ''a'' then Fin (- 1) else Fin 1);
          table =
            toInitialize_sort (\<lambda>h s. False) True True []
              (static_table [\<lparr>th_cellIndex = 0, th_classList = [CLASS_TH_BASE]\<rparr>]
                 [\<lparr>tr_index = Fin 0, tr_classList = [CLASS_TR_BASE, CLASS_TR_VISIBLE],
                   tr_children = [\<lparr>td_textContent = ''b'', td_colSpan = 1, td_visible = True\<rparr>]\<rparr>,
                  \<lparr>tr_index = Fin 1, tr_classList = [CLASS_TR_BASE, CLASS_TR_VISIBLE],
                   tr_children = [\<lparr>td_textContent = ''a'', td_colSpan = 1, td_visible = True\<rparr>]\<rparr>]);
          descending = click stable_sort lc 0 table;
          after = click stable_sort lc 0 descending
      in map th_classList (st_ths descending)
           = [[CLASS_TH_BASE, CLASS_SORT_ENABLED, CLASS_SORT_DESCENDING]]
       \<and> st_tbody after = [1, 0]
       \<and> map th_classList (st_ths after)
           = [[CLASS_TH_BASE, CLASS_SORT_ENABLED, CLASS_SORT_ASCENDING]])"
  using C5_static_table_descending_click [OF conforming_stable_sort,
      of "\<lambda>a b. if a = b then Fin 0 else if a = ''a'' then Fin (- 1) else Fin 1" "\<lambda>h s. False"]
    conforming_stable_sort [where ?'a = nat]
  by (simp add: Let_def)

section \<open>Properties of \<open>validateVariable\<close>\<close>

text \<open>
  C9. A failed constraint is meant to end in \<open>validateFallback\<close>: the fallback value (or
  the result of the fallback function) when \<open>$fallback\<close> is present, a \<open>TableJSError\<close>
  that enumerates the predicates otherwise. The top-level rules \<open>equals\<close> and
  \<open>strictEquals\<close> miss it: on the value \<open>3\<close> with \<open>strictEquals: 5\<close> (or \<open>equals: 5\<close>) and a
  fallback \<open>0\<close>, the call throws a \<open>ReferenceError\<close> and returns no fallback. The same
  constraint inside \<open>$and\<close> returns the fallback, and without a fallback an \<open>$and\<close> that
  fails throws the \<open>TableJSError\<close> with one line per predicate.
\<close>

theorem C9_fallback_not_reached_on_equals:
  "validateVariable rt (VNum (Fin 3))
     (no_validations\<lparr>v_strictEquals := Some (VNum (Fin 5)),
                     v_fallback := Some (ActValue (VNum (Fin 0)))\<rparr>)
     = Inl (ReferenceError ''strictEqualsValue'')
   \<and> validateVariable \<lparr>abstract_equals = strict_equals, has_property = (\<lambda>object key. False)\<rparr>
       (VNum (Fin 3))
       (no_validations\<lparr>v_equals := Some (VNum (Fin 5)),
                       v_fallback := Some (ActFunction (\<lambda>value. Some (VNum (Fin 0))))\<rparr>)
     = Inl (ReferenceError ''equalsValue'')
   \<and> validateVariable rt (VNum (Fin 3))
       (no_validations\<lparr>v_and := Some [CStrictEquals (VNum (Fin 5))],
                       v_fallback := Some (ActValue (VNum (Fin 0)))\<rparr>)
     = Inr (VNum (Fin 0))
   \<and> validateVariable rt (VNum (Fin 3))
       (no_validations\<lparr>v_and := Some [CTypeOf (One ''string''), CStrictEquals (VNum (Fin 5))]\<rparr>)
     = Inl (TableJSError ''variable'' (VNum (Fin 3))
              (AttainAll [LTypeOf (One ''string''), LStrictEquals (VNum (Fin 5))]))"
  by (simp add: validateVariable_def no_validations_def check_or_def check_and_def
      check_typeOf_def check_in_def check_has_def check_instanceOf_def check_equals_def
      check_strictEquals_def validateFallback_def varName_def validateTypeOf_def)

end
